theory Spec2Isabelle
  imports Complex_Main "HOL-Library.Product_Lexorder"
begin

section \<open>Python values\<close>

text \<open>
  Exceptions of the source are values: a computation returns \<open>error + 'a\<close>, with
  \<open>Inl\<close> the exception that was raised. A computation that contains the
  \<^verbatim>\<open>while\<close> loop of \<^verbatim>\<open>generate_recommendations\<close> returns
  \<open>(error + 'a) option\<close>, where \<open>None\<close> means that the loop never returns.
\<close>

datatype error =
  AssertionError | AttributeError | IndexError | KeyError | TypeError | ValueError
  | ZeroDivisionError

type_synonym item = nat
type_synonym user = nat
type_synonym matrix = "real list list"

text \<open>
  The array \<^verbatim>\<open>X\<close> of the generation is a \<^verbatim>\<open>scipy.sparse.csr_matrix\<close> or a
  \<^verbatim>\<open>numpy\<close> array: its storage and its values.
\<close>

datatype storage = Csr | Ndarray

type_synonym array = "storage \<times> matrix"

definition bind_err :: "error + 'a \<Rightarrow> ('a \<Rightarrow> error + 'b) \<Rightarrow> error + 'b" where
  "bind_err m f = (case m of Inl e \<Rightarrow> Inl e | Inr x \<Rightarrow> f x)"

definition bind_res :: "(error + 'a) option \<Rightarrow> ('a \<Rightarrow> (error + 'b) option) \<Rightarrow> (error + 'b) option" where
  "bind_res m f = (case m of None \<Rightarrow> None | Some (Inl e) \<Rightarrow> Some (Inl e) | Some (Inr x) \<Rightarrow> f x)"

fun map_err :: "('a \<Rightarrow> error + 'b) \<Rightarrow> 'a list \<Rightarrow> error + 'b list" where
  "map_err f [] = Inr []"
| "map_err f (x # xs) =
     (case f x of
        Inl e \<Rightarrow> Inl e
      | Inr y \<Rightarrow> (case map_err f xs of Inl e \<Rightarrow> Inl e | Inr ys \<Rightarrow> Inr (y # ys)))"

text \<open>The slice \<^verbatim>\<open>xs[:k]\<close>: a negative \<open>k\<close> counts from the end.\<close>

definition slice_to :: "'a list \<Rightarrow> int \<Rightarrow> 'a list" where
  "slice_to xs k = (if 0 \<le> k then take (nat k) xs else take (length xs - nat (- k)) xs)"

section \<open>Data frames\<close>

text \<open>
  A table of the program (\<^verbatim>\<open>train\<close>, \<^verbatim>\<open>test\<close>, \<^verbatim>\<open>val\<close>,
  \<^verbatim>\<open>recommendations\<close>) has the user identifier as its index and list-valued
  cells (item identifiers, playtimes in minutes). A row holds one cell per column, in
  the order of \<open>columns\<close>.
\<close>

type_synonym cell = "nat list"

record table =
  columns :: "string list"
  rows :: "(user \<times> cell list) list"

text \<open>\<^verbatim>\<open>row[name]\<close>: KeyError when the table has no such column.\<close>

definition getitem :: "string list \<Rightarrow> cell list \<Rightarrow> string \<Rightarrow> error + cell" where
  "getitem cols cells name =
     (case map_of (zip cols cells) name of None \<Rightarrow> Inl KeyError | Some c \<Rightarrow> Inr c)"

text \<open>\<^verbatim>\<open>df.rename(columns={old: new})\<close>\<close>

definition rename :: "string \<Rightarrow> string \<Rightarrow> table \<Rightarrow> table" where
  "rename old new t = t\<lparr>columns := map (\<lambda>c. if c = old then new else c) (columns t)\<rparr>"

text \<open>
  \<^verbatim>\<open>left.merge(right, left_index=True, right_index=True)\<close>: the inner join on the
  index, in the order of the left rows; a column name that both sides have gets the
  suffix \<^verbatim>\<open>_x\<close> on the left and \<^verbatim>\<open>_y\<close> on the right.
\<close>

definition merge :: "table \<Rightarrow> table \<Rightarrow> table" where
  "merge l r =
     \<lparr>columns =
        map (\<lambda>c. if c \<in> set (columns r) then c @ ''_x'' else c) (columns l) @
        map (\<lambda>c. if c \<in> set (columns l) then c @ ''_y'' else c) (columns r),
      rows =
        concat (map (\<lambda>(u, lc). map (\<lambda>(u', rc). (u, lc @ rc))
                      (filter (\<lambda>(u', rc). u' = u) (rows r))) (rows l))\<rparr>"

text \<open>\<^verbatim>\<open>df[name] = values\<close>, one value per row: replaces the column or appends it.\<close>

definition set_cell :: "string list \<Rightarrow> string \<Rightarrow> cell \<Rightarrow> cell list \<Rightarrow> cell list" where
  "set_cell cols name v cells =
     (if name \<in> set cols
      then map (\<lambda>(c, x). if c = name then v else x) (zip cols cells)
      else cells @ [v])"

definition set_column :: "string \<Rightarrow> cell list \<Rightarrow> table \<Rightarrow> table" where
  "set_column name vs t =
     \<lparr>columns = (if name \<in> set (columns t) then columns t else columns t @ [name]),
      rows = map (\<lambda>((u, cells), v). (u, set_cell (columns t) name v cells)) (zip (rows t) vs)\<rparr>"

text \<open>
  \<^verbatim>\<open>self.train.iloc[:read_max].copy(deep=True) if read_max else self.train\<close>:
  \<^verbatim>\<open>None\<close> and \<^verbatim>\<open>0\<close> are both false.
\<close>

definition select_users :: "int option \<Rightarrow> table \<Rightarrow> table" where
  "select_users read_max t =
     (case read_max of
        None \<Rightarrow> t
      | Some m \<Rightarrow> if m = 0 then t else t\<lparr>rows := slice_to (rows t) m\<rparr>)"

section \<open>Feature rows\<close>

definition dot :: "real list \<Rightarrow> real list \<Rightarrow> real" where
  "dot u v = sum_list (map2 (*) u v)"

definition norm2 :: "real list \<Rightarrow> real" where
  "norm2 v = sqrt (dot v v)"

text \<open>The metric \<^verbatim>\<open>'cosine'\<close>: one minus the cosine similarity.\<close>

definition cosine_distance :: "real list \<Rightarrow> real list \<Rightarrow> real" where
  "cosine_distance u v = 1 - dot u v / (norm2 u * norm2 v)"

text \<open>\<^verbatim>\<open>Normalizer\<close>: every row scaled to unit Euclidean length, a zero row kept.\<close>

definition l2_normalize :: "real list \<Rightarrow> real list" where
  "l2_normalize v = (if norm2 v = 0 then v else map (\<lambda>x. x / norm2 v) v)"

definition normalizer_transform :: "matrix \<Rightarrow> matrix" where
  "normalizer_transform X = map l2_normalize X"

text \<open>
  \<^verbatim>\<open>items.iloc[row["item_id"], :]\<close>: the rows at the given positions, IndexError for
  a position outside the frame. Item identifiers are row positions and are natural
  numbers here.
\<close>

definition iloc :: "matrix \<Rightarrow> item list \<Rightarrow> error + matrix" where
  "iloc items ids =
     (if \<forall>i \<in> set ids. i < length items then Inr (map (\<lambda>i. items ! i) ids)
      else Inl IndexError)"

text \<open>\<^verbatim>\<open>DataFrame.empty\<close>: an axis of length zero.\<close>

definition df_empty :: "matrix \<Rightarrow> bool" where
  "df_empty m \<longleftrightarrow> m = [] \<or> hd m = []"

text \<open>\<^verbatim>\<open>DataFrame.mean()\<close>: the mean of every column.\<close>

definition mean :: "matrix \<Rightarrow> real list" where
  "mean m = map (\<lambda>j. sum_list (map (\<lambda>r. r ! j) m) / real (length m)) [0..<length (hd m)]"

text \<open>
  Lines 242 to 245 (and 348 to 351): gather the owned rows and assert that the frame
  is not empty.
\<close>

definition owned_items :: "matrix \<Rightarrow> item list \<Rightarrow> error + matrix" where
  "owned_items items item_id =
     bind_err (iloc items item_id)
       (\<lambda>owned. if df_empty owned then Inl AssertionError else Inr owned)"

section \<open>The nearest-neighbour index\<close>

text \<open>
  The index is an object of the numerical library, built by
  \<^verbatim>\<open>NearestNeighbors(n_neighbors=10, algorithm='auto', metric='cosine')\<close> and
  \<^verbatim>\<open>fit(X)\<close>; the repository only calls it. A fitted index is represented by its
  call \<^verbatim>\<open>kneighbors(vector, k)\<close>, reduced to the list of neighbour positions
  \<^verbatim>\<open>nns[1][0]\<close> that the program reads.
\<close>

type_synonym neighbors = "real list \<Rightarrow> int \<Rightarrow> error + item list"

text \<open>
  Modelled from the spec: \<^verbatim>\<open>query(vector, k)\<close> of the spec's NeighborIndex (4.2),
  which is not in the repository: the ordered list of up to \<open>k\<close> item identifiers.
  \<open>ranked\<close> is the catalogue, nearest first.
\<close>

definition query :: "item list \<Rightarrow> int \<Rightarrow> error + item list" where
  "query ranked k = Inr (take (nat k) ranked)"

text \<open>
  The library's own \<^verbatim>\<open>kneighbors\<close> differs from the spec's \<open>query\<close>: it
  rejects a neighbour count that is not positive or that exceeds the number of fitted
  samples with a ValueError. \<open>ranked\<close> is the catalogue in the order in which the
  library ranks it for the request.
\<close>

definition kneighbors :: "item list \<Rightarrow> int \<Rightarrow> error + item list" where
  "kneighbors ranked k =
     (if k \<le> 0 \<or> int (length ranked) < k then Inl ValueError else Inr (take (nat k) ranked))"

text \<open>
  Modelled from the spec: that the neighbour list of the library, which is computed
  outside the repository, is in ascending distance from the query vector (4.2). The
  library does not break ties by the item index: the order of the items at one
  distance is what its partial sort leaves, and is a parameter here. \<open>d i\<close> is the
  distance of item \<open>i\<close> from the query vector, \<open>n\<close> the catalogue size and \<open>tie i\<close>
  the place of item \<open>i\<close> among the items at its distance; only items with the same
  distance and the same place come by ascending index.
\<close>

definition neighbour_order :: "(item \<Rightarrow> real) \<Rightarrow> (item \<Rightarrow> nat) \<Rightarrow> nat \<Rightarrow> item list" where
  "neighbour_order d tie n = sort_key (\<lambda>i. (d i, tie i, i)) [0..<n]"

text \<open>
  The library's \<^verbatim>\<open>fit\<close> after \<^verbatim>\<open>set_params(n_neighbors=amount)\<close>: it rejects
  a neighbour count that is not positive and a matrix with no row or no column, and
  takes a sparse matrix as well as an array. \<open>ties v k\<close> is the library's order of
  equidistant items when it is asked for \<open>k\<close> neighbours of the vector \<open>v\<close>.
\<close>

definition NearestNeighbors ::
  "(real list \<Rightarrow> real list \<Rightarrow> real) \<Rightarrow> (real list \<Rightarrow> int \<Rightarrow> item \<Rightarrow> nat) \<Rightarrow> int \<Rightarrow> array \<Rightarrow>
   error + neighbors" where
  "NearestNeighbors metric ties n_neighbors X =
     (if n_neighbors \<le> 0 \<or> snd X = [] \<or> hd (snd X) = [] then Inl ValueError
      else Inr (\<lambda>v k. kneighbors
                  (neighbour_order (\<lambda>i. metric v (snd X ! i)) (ties v k) (length (snd X))) k))"

text \<open>
  What the retrieval loop needs of an index that ranks the catalogue in one order for
  every request: a request for \<open>k\<close> neighbours with \<open>0 < k \<le> n\<close> returns the first
  \<open>k\<close> of the ranked catalogue, and every list it returns is an initial segment of the
  ranked catalogue.
\<close>

definition prefix_index :: "item list \<Rightarrow> (int \<Rightarrow> error + item list) \<Rightarrow> bool" where
  "prefix_index ranked q \<longleftrightarrow>
     (\<forall>k. 0 < k \<and> k \<le> int (length ranked) \<longrightarrow> q k = Inr (take (nat k) ranked))"

definition only_prefixes :: "item list \<Rightarrow> (int \<Rightarrow> error + item list) \<Rightarrow> bool" where
  "only_prefixes ranked q \<longleftrightarrow> (\<forall>k nns. q k = Inr nns \<longrightarrow> (\<exists>j. nns = take j ranked))"

section \<open>The recommenders\<close>

text \<open>
  The attributes of a \<^verbatim>\<open>ContentBasedRecommender\<close> that the modelled methods read
  or write. \<open>tfidf\<close> is the transformer chosen by the constructor, represented by its
  \<^verbatim>\<open>fit_transform\<close>; \<open>method_nn\<close> is the neighbour search \<^verbatim>\<open>self.method\<close>,
  represented by \<^verbatim>\<open>set_params(n_neighbors=amount)\<close> followed by \<^verbatim>\<open>fit\<close>;
  \<open>normalize_rows\<close> is \<^verbatim>\<open>self.normalize\<close>. The transformer of the library
  computes the same values from a sparse matrix and from an array and returns a sparse
  matrix in both cases, so \<open>tfidf\<close> is a function of the values.
\<close>

record recommender =
  sparse :: bool
  normalize_rows :: bool
  tfidf :: "(matrix \<Rightarrow> error + matrix) option"
  method_nn :: "int \<Rightarrow> array \<Rightarrow> error + neighbors"
  items :: matrix
  train :: table
  test :: table
  val :: table
  recommendations :: table

text \<open>
  \<^verbatim>\<open>ImprovedRecommender\<close> adds three attributes. \<open>dim_red\<close> is the reduction
  object of the caller, represented by its \<^verbatim>\<open>fit_transform\<close>: it is handed the
  array as it is stored and decides how its result is stored. No constructor of the
  hierarchy assigns an attribute \<^verbatim>\<open>metadata\<close>.
\<close>

record improved = recommender +
  dim_red :: "(array \<Rightarrow> error + array) option"
  use_feedback :: bool
  reviews :: "(user \<times> bool list \<times> item list) list"

subsection \<open>Adaptive candidate retrieval\<close>

text \<open>
  The \<^verbatim>\<open>while\<close> loop of lines 257 to 262 (and 382 to 387), for one user:
  \<open>nns_of k\<close> is \<^verbatim>\<open>nbrs.kneighbors(user_vector, k)\<close>, the fitted index at the
  user's query vector, and \<open>item_id\<close> the user's \<^verbatim>\<open>row["item_id"]\<close>. The loop
  has no other exit than its condition and an exception of the index.
\<close>

partial_function (option) retrieve ::
  "(int \<Rightarrow> error + item list) \<Rightarrow> item list \<Rightarrow> int \<Rightarrow> int \<Rightarrow> item list \<Rightarrow> (error + item list) option"
where
  "retrieve nns_of item_id amount gen_am recs =
     (if int (length recs) < amount then
        (let gen_am' = gen_am + (amount - int (length recs)) in
         case nns_of gen_am' of
           Inl e \<Rightarrow> Some (Inl e)
         | Inr nns \<Rightarrow>
             retrieve nns_of item_id amount gen_am' (filter (\<lambda>id. id \<notin> set item_id) nns))
      else Some (Inr recs))"

text \<open>Lines 254 to 264: the start at \<^verbatim>\<open>amount//5\<close>, the loop, and the slice.\<close>

definition retrieve_recommendations ::
  "(int \<Rightarrow> error + item list) \<Rightarrow> item list \<Rightarrow> int \<Rightarrow> (error + item list) option" where
  "retrieve_recommendations nns_of item_id amount =
     bind_res (retrieve nns_of item_id amount (amount div 5) [])
       (\<lambda>recs. Some (Inr (slice_to recs amount)))"

text \<open>The items of a list that the user does not own, in the order of the list.\<close>

definition novel :: "item list \<Rightarrow> item list \<Rightarrow> item list" where
  "novel item_id xs = filter (\<lambda>id. id \<notin> set item_id) xs"

subsection \<open>ContentBasedRecommender.generate_recommendations\<close>

definition user_query :: "bool \<Rightarrow> real list \<Rightarrow> real list" where
  "user_query normalized user_vector = (if normalized then l2_normalize user_vector else user_vector)"

text \<open>
  The frame \<^verbatim>\<open>items\<close> of lines 230 to 234 (334 to 340) is built from \<^verbatim>\<open>X\<close>
  by \<^verbatim>\<open>DataFrame.sparse.from_spmatrix(X)\<close> or by \<^verbatim>\<open>DataFrame(X)\<close>, which
  does not convert: from an array it gives the frame of the values, from a matrix that
  is still sparse a frame of one column of objects, the rows of the matrix. The rows
  of such a frame can be selected, but their \<^verbatim>\<open>mean()\<close> raises TypeError. A frame
  is the way it was built and the rows of \<^verbatim>\<open>X\<close>; \<open>from_spmatrix\<close> says which
  constructor the source takes.
\<close>

datatype layout = SparseFrame | DenseFrame | ObjectFrame

definition build_frame :: "bool \<Rightarrow> array \<Rightarrow> layout \<times> matrix" where
  "build_frame from_spmatrix X =
     (if from_spmatrix then (SparseFrame, snd X)
      else if fst X = Csr then (ObjectFrame, snd X)
      else (DenseFrame, snd X))"

definition frame_mean :: "layout \<Rightarrow> matrix \<Rightarrow> error + real list" where
  "frame_mean built rows_of = (if built = ObjectFrame then Inl TypeError else Inr (mean rows_of))"

text \<open>The body of the loop over the users, lines 241 to 264.\<close>

definition recommend_user ::
  "bool \<Rightarrow> neighbors \<Rightarrow> layout \<times> matrix \<Rightarrow> int \<Rightarrow> item list \<Rightarrow> (error + item list) option" where
  "recommend_user normalized nbrs frame amount item_id =
     (case owned_items (snd frame) item_id of
        Inl e \<Rightarrow> Some (Inl e)
      | Inr owned \<Rightarrow>
          (case frame_mean (fst frame) owned of
             Inl e \<Rightarrow> Some (Inl e)
           | Inr user_vector \<Rightarrow>
               retrieve_recommendations (nbrs (user_query normalized user_vector)) item_id amount))"

text \<open>The same body on a row of the user table, which reads \<^verbatim>\<open>row["item_id"]\<close>.\<close>

definition recommend_row ::
  "bool \<Rightarrow> neighbors \<Rightarrow> layout \<times> matrix \<Rightarrow> int \<Rightarrow> string list \<Rightarrow> user \<times> cell list \<Rightarrow>
   (error + item list) option" where
  "recommend_row normalized nbrs frame amount cols =
     (\<lambda>(index, row).
        case getitem cols row ''item_id'' of
          Inl e \<Rightarrow> Some (Inl e)
        | Inr item_id \<Rightarrow> recommend_user normalized nbrs frame amount item_id)"

text \<open>The loop over the rows of the user table stops at the first exception.\<close>

fun for_rows :: "('a \<Rightarrow> (error + 'b) option) \<Rightarrow> 'a list \<Rightarrow> (error + 'b list) option" where
  "for_rows body [] = Some (Inr [])"
| "for_rows body (row # rest) =
     bind_res (body row) (\<lambda>r. bind_res (for_rows body rest) (\<lambda>rs. Some (Inr (r # rs))))"

text \<open>
  Lines 217 to 228: the encoded array. It starts as a sparse matrix or as an array,
  as \<^verbatim>\<open>self.sparse\<close> says; the tf-idf transformer returns a sparse matrix, the
  normaliser keeps the storage.
\<close>

definition encode :: "'a recommender_scheme \<Rightarrow> error + array" where
  "encode self =
     bind_err (case tfidf self of
                 None \<Rightarrow> Inr (if sparse self then Csr else Ndarray, items self)
               | Some t \<Rightarrow> bind_err (t (items self)) (\<lambda>values. Inr (Csr, values)))
       (\<lambda>X. Inr (if normalize_rows self then (fst X, normalizer_transform (snd X)) else X))"

text \<open>
  Lines 230 to 234: \<^verbatim>\<open>from_spmatrix\<close> with \<^verbatim>\<open>self.sparse\<close> (the array is
  sparse then), \<^verbatim>\<open>DataFrame(X)\<close> otherwise.
\<close>

definition content_frame :: "'a recommender_scheme \<Rightarrow> array \<Rightarrow> layout \<times> matrix" where
  "content_frame self X = build_frame (sparse self) X"

text \<open>
  Lines 266 and 267. Without \<^verbatim>\<open>read_max\<close> the frame \<^verbatim>\<open>df\<close> is
  \<^verbatim>\<open>self.train\<close> itself, which gets the new column too.
\<close>

definition store ::
  "int option \<Rightarrow> table \<Rightarrow> cell list \<Rightarrow> 'a recommender_scheme \<Rightarrow> 'a recommender_scheme" where
  "store read_max df recommendation_list self =
     (let df' = set_column ''recommendations'' recommendation_list df in
      self\<lparr>train := (if read_max = None \<or> read_max = Some 0 then df' else train self),
           recommendations := df'\<rparr>)"

definition generate_recommendations ::
  "'a recommender_scheme \<Rightarrow> int \<Rightarrow> int option \<Rightarrow> (error + 'a recommender_scheme) option" where
  "generate_recommendations self amount read_max =
     (let df = select_users read_max (train self) in
      case encode self of
        Inl e \<Rightarrow> Some (Inl e)
      | Inr X \<Rightarrow>
          (case method_nn self amount X of
             Inl e \<Rightarrow> Some (Inl e)
           | Inr nbrs \<Rightarrow>
               bind_res
                 (for_rows
                    (recommend_row (normalize_rows self) nbrs (content_frame self X) amount
                       (columns df))
                    (rows df))
                 (\<lambda>recommendation_list. Some (Inr (store read_max df recommendation_list self)))))"

subsection \<open>ImprovedRecommender.generate_recommendations\<close>

text \<open>
  Lines 317 to 332: the encoded array, with the dimensionality reduction, which gets
  the array as it is stored at that point.
\<close>

definition encode_improved :: "'a improved_scheme \<Rightarrow> error + array" where
  "encode_improved self =
     bind_err (case tfidf self of
                 None \<Rightarrow> Inr (if sparse self then Csr else Ndarray, items self)
               | Some t \<Rightarrow> bind_err (t (items self)) (\<lambda>values. Inr (Csr, values)))
       (\<lambda>X. bind_err (case dim_red self of None \<Rightarrow> Inr X | Some reduce \<Rightarrow> reduce X)
          (\<lambda>X. Inr (if normalize_rows self
                     then (fst X, normalizer_transform (snd X)) else X)))"

text \<open>
  Lines 334 to 340: \<^verbatim>\<open>warnings.warn\<close> adds a RuntimeWarning to the warnings of
  the call and returns; its message says that a dense representation is used instead.
  Nothing converts \<^verbatim>\<open>X\<close>: the item frame is built by \<^verbatim>\<open>from_spmatrix\<close>
  with \<^verbatim>\<open>self.sparse\<close> and without a reduction, and by \<^verbatim>\<open>DataFrame(X)\<close>
  otherwise, from the array as the reduction and the normaliser left it.
\<close>

datatype warning = RuntimeWarning

definition conflict_warnings :: "'a improved_scheme \<Rightarrow> warning list" where
  "conflict_warnings self = (if sparse self \<and> dim_red self \<noteq> None then [RuntimeWarning] else [])"

definition item_frame :: "'a improved_scheme \<Rightarrow> array \<Rightarrow> layout \<times> matrix" where
  "item_frame self X = build_frame (sparse self \<and> dim_red self = None) X"

text \<open>
  \<^verbatim>\<open>self.metadata\<close> (line 359): the attribute does not exist, reading it raises
  AttributeError. Its value would be the sentiment score of every item.
\<close>

definition metadata :: "'a improved_scheme \<Rightarrow> error + (item \<Rightarrow> real)" where
  "metadata self = Inl AttributeError"

text \<open>
  Lines 360 to 366: the explicit reviews of the user, in order; a later review of the
  same item overwrites an earlier one.
\<close>

definition explicit_feedback :: "(bool \<times> item) list \<Rightarrow> item list \<Rightarrow> (item \<rightharpoonup> real)" where
  "explicit_feedback feedback inventory =
     foldl (\<lambda>weight (like, review).
              if review \<in> set inventory then weight(review \<mapsto> (if like then 1 else 0)) else weight)
       Map.empty feedback"

text \<open>
  Lines 357 to 368: the column \<^verbatim>\<open>weight\<close> of the inventory. Line 367 assigns
  to a copy and changes nothing; line 368 gives every item without explicit feedback
  its sentiment.
\<close>

definition feedback_weights ::
  "(item \<Rightarrow> real) \<Rightarrow> (bool list \<times> item list) option \<Rightarrow> item list \<Rightarrow> real list" where
  "feedback_weights sentiment feedback item_id =
     (let explicit = (case feedback of
                        None \<Rightarrow> Map.empty
                      | Some (recommend, reviewed) \<Rightarrow>
                          explicit_feedback (zip recommend reviewed) item_id)
      in map (\<lambda>i. case explicit i of None \<Rightarrow> sentiment i | Some w \<Rightarrow> w) item_id)"

text \<open>
  Lines 354 to 370, the branch \<^verbatim>\<open>if self.use_feedback\<close>, with the result of
  reading \<^verbatim>\<open>self.metadata\<close> as a parameter: it never assigns
  \<^verbatim>\<open>user_vector\<close> and ends with \<^verbatim>\<open>assert False\<close>.
\<close>

definition feedback_branch ::
  "error + (item \<Rightarrow> real) \<Rightarrow> (user \<times> bool list \<times> item list) list \<Rightarrow> string list \<Rightarrow>
   user \<Rightarrow> cell list \<Rightarrow> item list \<Rightarrow> error + real list" where
  "feedback_branch metadata_attr reviews_table cols index row item_id =
     bind_err (getitem cols row ''playtime_forever'')
       (\<lambda>playtime.
          let playtime_weights = map (\<lambda>p. log 2 (real p + 1)) playtime in
          bind_err metadata_attr
            (\<lambda>sentiment.
               let weight = feedback_weights sentiment (map_of reviews_table index) item_id
               in Inl AssertionError))"

text \<open>The body of the loop over the users, lines 347 to 389.\<close>

definition recommend_user_improved ::
  "'a improved_scheme \<Rightarrow> neighbors \<Rightarrow> layout \<times> matrix \<Rightarrow> int \<Rightarrow> string list \<Rightarrow>
   user \<times> cell list \<Rightarrow> (error + item list) option" where
  "recommend_user_improved self nbrs frame amount cols =
     (\<lambda>(index, row).
        case getitem cols row ''item_id'' of
          Inl e \<Rightarrow> Some (Inl e)
        | Inr item_id \<Rightarrow>
            (case owned_items (snd frame) item_id of
               Inl e \<Rightarrow> Some (Inl e)
             | Inr inventory_items \<Rightarrow>
                 (case (if use_feedback self
                        then feedback_branch (metadata self) (reviews self) cols index row item_id
                        else frame_mean (fst frame) inventory_items) of
                    Inl e \<Rightarrow> Some (Inl e)
                  | Inr user_vector \<Rightarrow>
                      retrieve_recommendations
                        (nbrs (user_query (normalize_rows self) user_vector)) item_id amount)))"

text \<open>The call returns the warnings it emitted and its outcome.\<close>

definition generate_recommendations_improved ::
  "'a improved_scheme \<Rightarrow> int \<Rightarrow> int option \<Rightarrow>
   warning list \<times> (error + 'a improved_scheme) option" where
  "generate_recommendations_improved self amount read_max =
     (let df = select_users read_max (train self) in
      case encode_improved self of
        Inl e \<Rightarrow> ([], Some (Inl e))
      | Inr X \<Rightarrow>
          (conflict_warnings self,
           case method_nn self amount X of
             Inl e \<Rightarrow> Some (Inl e)
           | Inr nbrs \<Rightarrow>
               bind_res
                 (for_rows (recommend_user_improved self nbrs (item_frame self X) amount (columns df))
                    (rows df))
                 (\<lambda>recommendation_list. Some (Inr (store read_max df recommendation_list self)))))"

section \<open>BaseRecommender.evaluate\<close>

text \<open>
  The metrics of one joined row, as lines 103 to 122 compute them: \<open>recs\<close> is the
  truncated recommendation list and \<open>gt\<close> the list \<^verbatim>\<open>row['items']\<close>. Floating
  point numbers are real numbers here; a quotient that is not a number is \<open>None\<close>.
\<close>

definition hit :: "item list \<Rightarrow> item list \<Rightarrow> real" where
  "hit recs gt = (if \<exists>item \<in> set gt. item \<in> set recs then 1 else 0)"

definition dcg :: "item list \<Rightarrow> item list \<Rightarrow> real" where
  "dcg recs gt =
     sum_list (map (\<lambda>(i, rec). (if rec \<in> set gt then 1 else 0) / log 2 (real i + 2))
                 (enumerate 0 recs))"

definition ideal_dcg :: "item list \<Rightarrow> item list \<Rightarrow> real" where
  "ideal_dcg recs gt =
     sum_list (map (\<lambda>i. 1 / log 2 (real i + 2)) [0..<min (length recs) (length gt)])"

definition ndcg :: "item list \<Rightarrow> item list \<Rightarrow> real option" where
  "ndcg recs gt =
     (if ideal_dcg recs gt = 0 then None else Some (dcg recs gt / ideal_dcg recs gt))"

text \<open>
  From line 112 on both lists are sets. Lines 114 and 118 divide integers and line 122
  divides two numbers of the row: ZeroDivisionError for a zero divisor.
\<close>

definition recall :: "item list \<Rightarrow> item list \<Rightarrow> error + real" where
  "recall recs gt =
     (if card (set gt) = 0 then Inl ZeroDivisionError
      else Inr (real (card (set recs \<inter> set gt)) / real (card (set gt))))"

definition ideal_recall :: "item list \<Rightarrow> item list \<Rightarrow> error + real" where
  "ideal_recall recs gt =
     (if card (set gt) = 0 then Inl ZeroDivisionError
      else Inr (real (min (card (set gt)) (card (set recs))) / real (card (set gt))))"

definition nRecall :: "real \<Rightarrow> real \<Rightarrow> error + real" where
  "nRecall r ideal = (if ideal = 0 then Inl ZeroDivisionError else Inr (r / ideal))"

text \<open>\<^verbatim>\<open>Series.mean()\<close>; with a value that is not a number the mean is not one.\<close>

definition average :: "real list \<Rightarrow> real" where
  "average xs = sum_list xs / real (length xs)"

definition average_opt :: "real option list \<Rightarrow> real option" where
  "average_opt xs = (if None \<in> set xs then None else Some (average (map the xs)))"

text \<open>\<^verbatim>\<open>df[name]\<close>: the cells of a column, KeyError without such a column.\<close>

definition column :: "table \<Rightarrow> string \<Rightarrow> error + cell list" where
  "column t name =
     (if name \<in> set (columns t)
      then map_err (\<lambda>(index, row). getitem (columns t) row name) (rows t)
      else Inl KeyError)"

text \<open>
  The report: the dictionary of line 125, whose keys are the five metric names
  followed by \<^verbatim>\<open>@k\<close>.
\<close>

record results =
  cutoff :: int
  HR_at :: real
  nDCG_at :: "real option"
  recall_at :: real
  ideal_recall_at :: real
  nRecall_at :: real

text \<open>
  Lines 99 to 125 on the joined table. Every column is computed for all rows before
  the next one. With no joined row, \<^verbatim>\<open>eval.apply\<close> of line 103 returns a frame, and
  assigning it to one column raises ValueError.
\<close>

definition metrics :: "int \<Rightarrow> table \<Rightarrow> error + results" where
  "metrics k joined =
     bind_err (column joined ''recommendations'')
       (\<lambda>recs_column.
          let recs = map (\<lambda>rec. slice_to rec k) recs_column in
          if rows joined = [] then Inl ValueError
          else bind_err (column joined ''items'')
            (\<lambda>gts.
               let HR = map2 hit recs gts;
                   nDCG = map2 ndcg recs gts
               in bind_err (map_err (\<lambda>(rec, gt). recall rec gt) (zip recs gts))
                 (\<lambda>recalls. bind_err (map_err (\<lambda>(rec, gt). ideal_recall rec gt) (zip recs gts))
                   (\<lambda>ideals. bind_err (map_err (\<lambda>(r, ideal). nRecall r ideal) (zip recalls ideals))
                     (\<lambda>nRecalls.
                        Inr \<lparr>cutoff = k, HR_at = average HR, nDCG_at = average_opt nDCG,
                             recall_at = average recalls, ideal_recall_at = average ideals,
                             nRecall_at = average nRecalls\<rparr>)))))"

text \<open>
  \<^verbatim>\<open>evaluate(filename, qual_eval_folder, k, val)\<close>. Line 87 renames the column of
  the stored table itself (\<^verbatim>\<open>inplace=True\<close>), so the call returns the recommender
  as it is afterwards, the files it wrote, and the report or the exception.
\<close>

definition truthy :: "string option \<Rightarrow> bool" where
  "truthy s \<longleftrightarrow> s \<noteq> None \<and> s \<noteq> Some []"

definition evaluate ::
  "'a recommender_scheme \<Rightarrow> string option \<Rightarrow> string option \<Rightarrow> int \<Rightarrow> bool \<Rightarrow>
   'a recommender_scheme \<times> (string \<times> table) list \<times> (error + results)" where
  "evaluate self filename qual_eval_folder k use_val =
     (let gt = rename ''item_id'' ''items'' (if use_val then val self else test self);
          self' = (if use_val then self\<lparr>val := gt\<rparr> else self\<lparr>test := gt\<rparr>);
          joined = merge (recommendations self) gt;
          written = (if truthy filename \<and> truthy qual_eval_folder
                     then [(the qual_eval_folder @ the filename @ ''.parquet'', joined)]
                     else [])
      in (self', written, metrics k joined))"

section \<open>Reading the recommendation column\<close>


text \<open>
  The same column against the catalogue size and \<^verbatim>\<open>amount\<close>: in every row
  the catalogue without the \<^verbatim>\<open>item_id\<close> cell of the row holds at least
  \<^verbatim>\<open>amount\<close> items, and the length of the list is the smaller of the two numbers.
\<close>

definition full_lists :: "nat \<Rightarrow> int \<Rightarrow> table \<Rightarrow> cell list \<Rightarrow> bool" where
  "full_lists catalog_size amount df recommendation_list \<longleftrightarrow>
     list_all2
       (\<lambda>(index, row) recs.
          case getitem (columns df) row ''item_id'' of
            Inl e \<Rightarrow> False
          | Inr item_id \<Rightarrow>
              amount \<le> int catalog_size - int (card (set item_id)) \<and>
              int (length recs) = min amount (int catalog_size - int (card (set item_id))))
       (rows df) recommendation_list"
section \<open>Example data\<close>

text \<open>
  Scenario 1 of the spec: the items A and B have the genre RPG, item C the genre
  Shooter; the only user owns A.
\<close>

definition example_items :: matrix where
  "example_items = [[1, 0], [1, 0], [0, 1]]"

definition example_train :: table where
  "example_train = \<lparr>columns = [''item_id''], rows = [(1, [[0]])]\<rparr>"

definition no_table :: table where
  "no_table = \<lparr>columns = [], rows = []\<rparr>"

text \<open>
  The library's order of equidistant items is taken by ascending index in the
  examples on this catalogue; their recommendations are the same for every other
  order. \<open>example_nbrs\<close> is the index fitted on the catalogue.
\<close>

definition example_ties :: "real list \<Rightarrow> int \<Rightarrow> item \<Rightarrow> nat" where
  "example_ties v k i = 0"

definition example_nbrs :: neighbors where
  "example_nbrs =
     (\<lambda>v k. kneighbors
        (neighbour_order (\<lambda>i. cosine_distance v (example_items ! i)) (example_ties v k)
           (length example_items)) k)"

definition example_recommender :: recommender where
  "example_recommender =
     \<lparr>sparse = True, normalize_rows = False, tfidf = None,
      method_nn = NearestNeighbors cosine_distance example_ties,
      items = example_items, train = example_train, test = no_table, val = no_table,
      recommendations = no_table\<rparr>"

text \<open>
  The same data for an \<^verbatim>\<open>ImprovedRecommender\<close> in plain mode
  (\<^verbatim>\<open>use_feedback=False\<close>), without reduction and without reviews.
\<close>

definition example_improved :: improved where
  "example_improved =
     \<lparr>sparse = True, normalize_rows = False, tfidf = None,
      method_nn = NearestNeighbors cosine_distance example_ties,
      items = example_items, train = example_train, test = no_table, val = no_table,
      recommendations = no_table,
      dim_red = None, use_feedback = False, reviews = []\<rparr>"

text \<open>
  Scenario 2 of the spec, with the items B, C and D as 1, 2 and 3: user 1 was
  recommended \<open>[B, C]\<close> and the held-out items of the test table are \<open>{B, D}\<close>.
\<close>

definition scenario2 :: recommender where
  "scenario2 =
     example_recommender
       \<lparr>test := \<lparr>columns = [''item_id''], rows = [(1, [[1, 3]])]\<rparr>,
        recommendations :=
          \<lparr>columns = [''item_id'', ''recommendations''], rows = [(1, [[0], [1, 2]])]\<rparr>\<rparr>"

text \<open>A user table whose second user owns nothing.\<close>

definition empty_user_train :: table where
  "empty_user_train = \<lparr>columns = [''item_id''], rows = [(1, [[0]]), (2, [[]])]\<rparr>"

text \<open>
  Feedback mode, the default of \<^verbatim>\<open>ImprovedRecommender\<close>: the user has played
  item A for 120 minutes and has reviewed it with a recommendation.
\<close>

definition feedback_example :: improved where
  "feedback_example =
     example_improved
       \<lparr>train := \<lparr>columns = [''item_id'', ''playtime_forever''], rows = [(1, [[0], [120]])]\<rparr>,
        use_feedback := True, reviews := [(1, [True], [0])]\<rparr>"

text \<open>
  The configuration conflict: \<^verbatim>\<open>sparse=True\<close> together with a reduction whose
  \<^verbatim>\<open>fit_transform\<close> returns a sparse matrix for a sparse matrix and an array for
  an array (as a sparse random projection does), here with the values unchanged.
\<close>

definition conflict_example :: improved where
  "conflict_example = example_improved\<lparr>dim_red := Some Inr\<rparr>"

text \<open>A user who owns the items A and B of the catalogue of three.\<close>

definition two_owned_train :: table where
  "two_owned_train = \<lparr>columns = [''item_id''], rows = [(1, [[0, 1]])]\<rparr>"


text \<open>
  Four items with the same features and a fifth, which the user owns. For the query
  vector of that user the library ranks the catalogue as \<open>[4, 0, 2, 1, 3]\<close>: the
  four items at distance one do not come by ascending index.
\<close>

definition tied_items :: matrix where
  "tied_items = [[1, 0], [1, 0], [1, 0], [1, 0], [0, 1]]"

definition tied_ties :: "real list \<Rightarrow> int \<Rightarrow> item \<Rightarrow> nat" where
  "tied_ties v k i = (if i = 1 then 2 else if i = 2 then 1 else i)"

definition tied_nbrs :: neighbors where
  "tied_nbrs =
     (\<lambda>v k. kneighbors
        (neighbour_order (\<lambda>i. cosine_distance v (tied_items ! i)) (tied_ties v k)
           (length tied_items)) k)"

definition tied_recommender :: recommender where
  "tied_recommender =
     example_recommender
       \<lparr>method_nn := NearestNeighbors cosine_distance tied_ties,
        items := tied_items,
        train := \<lparr>columns = [''item_id''], rows = [(1, [[4]])]\<rparr>\<rparr>"

section \<open>Properties of the retrieval loop\<close>

lemma prefix_index_query: "prefix_index ranked (query ranked)"
  by (simp add: prefix_index_def query_def)

lemma prefix_index_kneighbors: "prefix_index ranked (kneighbors ranked)"
  by (simp add: prefix_index_def kneighbors_def)

lemma only_prefixes_query: "only_prefixes ranked (query ranked)"
  by (auto simp: only_prefixes_def query_def)

lemma only_prefixes_kneighbors: "only_prefixes ranked (kneighbors ranked)"
  by (auto simp: only_prefixes_def kneighbors_def split: if_splits)


lemma retrieve_Some:
  assumes "retrieve q owned amount g recs = Some y"
  shows "case y of
           Inl e \<Rightarrow> \<exists>k. q k = Inl e
         | Inr r \<Rightarrow> amount \<le> int (length r) \<and>
             (r = recs \<or> (\<exists>k nns. q k = Inr nns \<and> r = novel owned nns))"
proof (rule retrieve.raw_induct[OF _ assms], goal_cases)
  case (1 f q owned amount g recs y)
  show ?case
  proof (cases "int (length recs) < amount")
    case False
    with 1(2) show ?thesis by auto
  next
    case True
    let ?g = "g + (amount - int (length recs))"
    show ?thesis
    proof (cases "q ?g")
      case (Inl e)
      with True 1(2) show ?thesis by (auto simp: Let_def)
    next
      case (Inr nns)
      with True 1(2) have "f q owned amount ?g (filter (\<lambda>id. id \<notin> set owned) nns) = Some y"
        by (simp add: Let_def)
      from 1(1)[OF this] Inr show ?thesis by (auto simp: novel_def split: sum.splits)
    qed
  qed
qed

lemma retrieve_Inr:
  assumes "retrieve q owned amount g recs = Some (Inr r)"
  shows "amount \<le> int (length r) \<and> (r = recs \<or> (\<exists>k nns. q k = Inr nns \<and> r = novel owned nns))"
  using retrieve_Some[OF assms] by simp

lemma retrieve_Inl:
  assumes "retrieve q owned amount g recs = Some (Inl e)"
  shows "\<exists>k. q k = Inl e"
  using retrieve_Some[OF assms] by simp

lemma length_novel_take_ge:
  assumes "k \<le> length xs"
  shows "length (novel owned xs) + k \<le> length (novel owned (take k xs)) + length xs"
proof -
  have "length (novel owned xs) = length (novel owned (take k xs)) + length (novel owned (drop k xs))"
    unfolding novel_def by (metis append_take_drop_id filter_append length_append)
  moreover have "length (novel owned (drop k xs)) \<le> length xs - k"
    unfolding novel_def by (metis length_drop length_filter_le)
  ultimately show ?thesis using assms by linarith
qed

lemma length_novel_take_le: "length (novel owned (take k xs)) \<le> length (novel owned xs)"
  unfolding novel_def by (metis append_take_drop_id filter_append le_add1 length_append)

lemma take_novel_take:
  assumes "a \<le> length (novel owned (take j xs))"
  shows "take a (novel owned (take j xs)) = take a (novel owned xs)"
proof -
  have "novel owned xs = novel owned (take j xs) @ novel owned (drop j xs)"
    unfolding novel_def by (metis append_take_drop_id filter_append)
  with assms show ?thesis by simp
qed

lemma retrieve_returns:
  assumes q: "prefix_index ranked q"
    and enough: "amount \<le> int (length (novel owned ranked))"
    and inv: "0 \<le> g" "g + (amount - int (length recs)) \<le> int (length ranked)"
  shows "\<exists>r. retrieve q owned amount g recs = Some (Inr r)"
  using inv
proof (induction "nat (int (length ranked) - g)" arbitrary: g recs rule: less_induct)
  case less
  show ?case
  proof (cases "int (length recs) < amount")
    case False
    then show ?thesis by (subst retrieve.simps) simp
  next
    case True
    let ?g = "g + (amount - int (length recs))"
    let ?recs = "novel owned (take (nat ?g) ranked)"
    from True less.prems have g': "0 < ?g" "?g \<le> int (length ranked)" "g < ?g" by auto
    with q have qg: "q ?g = Inr (take (nat ?g) ranked)" by (simp add: prefix_index_def)
    have "length (novel owned ranked) + nat ?g \<le> length ?recs + length ranked"
      using g' by (intro length_novel_take_ge) auto
    with enough g' have "?g + (amount - int (length ?recs)) \<le> int (length ranked)" by linarith
    moreover have "nat (int (length ranked) - ?g) < nat (int (length ranked) - g)"
      using g' by linarith
    ultimately obtain r where "retrieve q owned amount ?g ?recs = Some (Inr r)"
      using less.hyps[of ?g ?recs] g' by auto
    with True qg show ?thesis by (subst retrieve.simps) (simp add: Let_def novel_def)
  qed
qed

lemma retrieve_kneighbors_terminates:
  "\<exists>res. retrieve (kneighbors ranked) owned amount g recs = Some res"
proof (induction "nat (int (length ranked) - g)" arbitrary: g recs rule: less_induct)
  case less
  show ?case
  proof (cases "int (length recs) < amount")
    case False
    then show ?thesis by (subst retrieve.simps) simp
  next
    case True
    let ?g = "g + (amount - int (length recs))"
    show ?thesis
    proof (cases "?g \<le> 0 \<or> int (length ranked) < ?g")
      case bad: True
      with True show ?thesis
        by (subst retrieve.simps) (simp add: Let_def kneighbors_def)
    next
      case ok: False
      let ?recs = "filter (\<lambda>id. id \<notin> set owned) (take (nat ?g) ranked)"
      have "nat (int (length ranked) - ?g) < nat (int (length ranked) - g)"
        using ok True by linarith
      from less.hyps[OF this, of ?recs] obtain res
        where "retrieve (kneighbors ranked) owned amount ?g ?recs = Some res" by blast
      with True ok show ?thesis
        by (subst retrieve.simps) (simp add: Let_def kneighbors_def)
    qed
  qed
qed

lemma retrieve_query_returns:
  assumes enough: "amount \<le> int (length (novel owned ranked))"
  shows "\<exists>r. retrieve (query ranked) owned amount g recs = Some (Inr r)"
proof (induction "nat (int (length ranked) - g)" arbitrary: g recs rule: less_induct)
  case less
  show ?case
  proof (cases "int (length recs) < amount")
    case False
    then show ?thesis by (subst retrieve.simps) simp
  next
    case True
    let ?g = "g + (amount - int (length recs))"
    let ?recs = "filter (\<lambda>id. id \<notin> set owned) (take (nat ?g) ranked)"
    have step: "retrieve (query ranked) owned amount g recs
                  = retrieve (query ranked) owned amount ?g ?recs"
      using True by (subst retrieve.simps) (simp add: Let_def query_def)
    show ?thesis
    proof (cases "int (length ranked) \<le> ?g")
      case all: True
      then have "?recs = novel owned ranked" by (simp add: novel_def)
      with enough have "\<not> int (length ?recs) < amount" by simp
      then have "retrieve (query ranked) owned amount ?g ?recs = Some (Inr ?recs)"
        by (subst retrieve.simps) simp
      with step show ?thesis by simp
    next
      case False
      with True have "nat (int (length ranked) - ?g) < nat (int (length ranked) - g)"
        by linarith
      from less.hyps[OF this, of ?recs] step show ?thesis by simp
    qed
  qed
qed

lemma retrieve_query_diverges_aux:
  assumes "retrieve q owned amount g recs = Some y"
  shows "q = query ranked \<longrightarrow>
         int (length (novel owned ranked)) < amount \<longrightarrow>
         \<not> int (length recs) < amount"
proof (rule retrieve.raw_induct[OF _ assms], goal_cases)
  case (1 f q owned amount g recs y)
  show ?case
  proof (intro impI notI)
    assume q: "q = query ranked"
      and few: "int (length (novel owned ranked)) < amount"
      and lt: "int (length recs) < amount"
    let ?g = "g + (amount - int (length recs))"
    let ?recs = "filter (\<lambda>id. id \<notin> set owned) (take (nat ?g) ranked)"
    from 1(2) q lt have f: "f q owned amount ?g ?recs = Some y"
      by (simp add: Let_def query_def)
    have "length ?recs \<le> length (novel owned ranked)"
      using length_novel_take_le[of owned "nat ?g" ranked] by (simp add: novel_def)
    with few have "int (length ?recs) < amount" by linarith
    with 1(1)[OF f] q few show False by blast
  qed
qed

lemma retrieve_query_diverges:
  assumes "int (length (novel owned ranked)) < amount"
    and "int (length recs) < amount"
  shows "retrieve (query ranked) owned amount g recs = None"
proof (cases "retrieve (query ranked) owned amount g recs")
  case (Some y)
  from retrieve_query_diverges_aux[OF this, of ranked] assms show ?thesis by simp
qed simp

text \<open>What a returned list is, for an index that returns initial segments only.\<close>

lemma retrieve_recommendations_value:
  assumes q: "only_prefixes ranked q"
    and pos: "0 < amount"
    and res: "retrieve_recommendations q owned amount = Some (Inr recs)"
  shows "recs = take (nat amount) (novel owned ranked) \<and> amount \<le> int (length (novel owned ranked))"
proof -
  from res obtain r where r: "retrieve q owned amount (amount div 5) [] = Some (Inr r)"
    and recs: "recs = slice_to r amount"
    by (auto simp: retrieve_recommendations_def bind_res_def split: option.splits sum.splits)
  from retrieve_Inr[OF r] pos obtain k nns where len: "amount \<le> int (length r)"
    and nns: "q k = Inr nns" "r = novel owned nns" by auto
  from q nns(1) obtain j where "nns = take j ranked" by (auto simp: only_prefixes_def)
  with nns have rj: "r = novel owned (take j ranked)" by simp
  with len have "nat amount \<le> length (novel owned (take j ranked))" by simp
  from take_novel_take[OF this] rj recs pos
  have "recs = take (nat amount) (novel owned ranked)" by (simp add: slice_to_def)
  moreover from len rj length_novel_take_le[of owned j ranked]
  have "amount \<le> int (length (novel owned ranked))" by simp
  ultimately show ?thesis by simp
qed

lemma retrieve_recommendations_kneighbors:
  assumes "0 < amount"
  shows "retrieve_recommendations (kneighbors ranked) item_id amount =
      Some (if amount + amount div 5 \<le> int (length ranked) \<and> amount \<le> int (length (novel item_id ranked))
            then Inr (take (nat amount) (novel item_id ranked)) else Inl ValueError)"
proof -
  obtain res where res: "retrieve (kneighbors ranked) item_id amount (amount div 5) [] = Some res"
    using retrieve_kneighbors_terminates by blast
  show ?thesis
  proof (cases res)
    case (Inl e)
    with res retrieve_Inl obtain k where "kneighbors ranked k = Inl e" by blast
    then have e: "e = ValueError" by (auto simp: kneighbors_def split: if_splits)
    have "\<not> (amount + amount div 5 \<le> int (length ranked) \<and> amount \<le> int (length (novel item_id ranked)))"
    proof
      assume a: "amount + amount div 5 \<le> int (length ranked) \<and> amount \<le> int (length (novel item_id ranked))"
      with assms have "\<exists>r. retrieve (kneighbors ranked) item_id amount (amount div 5) [] = Some (Inr r)"
        by (intro retrieve_returns[OF prefix_index_kneighbors]) auto
      with res Inl show False by simp
    qed
    with res Inl e show ?thesis by (simp add: retrieve_recommendations_def bind_res_def)
  next
    case (Inr r)
    with res have rr: "retrieve_recommendations (kneighbors ranked) item_id amount = Some (Inr (slice_to r amount))"
      by (simp add: retrieve_recommendations_def bind_res_def)
    from retrieve_recommendations_value[OF only_prefixes_kneighbors assms rr]
    have v: "slice_to r amount = take (nat amount) (novel item_id ranked)"
      "amount \<le> int (length (novel item_id ranked))" by auto
    have "amount + amount div 5 \<le> int (length ranked)"
    proof (rule ccontr)
      assume "\<not> ?thesis"
      with assms have "retrieve (kneighbors ranked) item_id amount (amount div 5) [] = Some (Inl ValueError)"
        by (subst retrieve.simps) (simp add: Let_def kneighbors_def)
      with res Inr show False by simp
    qed
    with rr v show ?thesis by simp
  qed
qed

lemma retrieve_recommendations_query:
  assumes "0 < amount"
  shows "retrieve_recommendations (query ranked) item_id amount =
      (if amount \<le> int (length (novel item_id ranked))
       then Some (Inr (take (nat amount) (novel item_id ranked))) else None)"
proof (cases "amount \<le> int (length (novel item_id ranked))")
  case True
  from retrieve_query_returns[OF True] obtain r
    where "retrieve (query ranked) item_id amount (amount div 5) [] = Some (Inr r)" by blast
  then have rr: "retrieve_recommendations (query ranked) item_id amount = Some (Inr (slice_to r amount))"
    by (simp add: retrieve_recommendations_def bind_res_def)
  from retrieve_recommendations_value[OF only_prefixes_query assms rr] rr True
  show ?thesis by simp
next
  case False
  with assms have "retrieve (query ranked) item_id amount (amount div 5) [] = None"
    by (intro retrieve_query_diverges) auto
  with False show ?thesis by (simp add: retrieve_recommendations_def bind_res_def)
qed

text \<open>
  C1 (amended). For every user and every amount above zero the retrieval loop stops
  only once at least \<open>amount\<close> non-excluded candidates are accumulated; it has no
  bound on the requested neighbour count. With the library's index it always ends: it
  returns the \<open>amount\<close> nearest non-excluded items when \<open>amount + amount div 5\<close> does
  not exceed the catalogue size and at least \<open>amount\<close> non-excluded items exist, and
  otherwise it ends in the ValueError of the index and returns no recommendation.
  With an index that answers with up to \<open>k\<close> neighbours it returns the same list when
  at least \<open>amount\<close> non-excluded items exist and otherwise never returns.
\<close>

theorem retrieval_loop_outcome:
  "0 < amount \<Longrightarrow>
   retrieve_recommendations (kneighbors ranked) item_id amount =
     Some (if amount + amount div 5 \<le> int (length ranked) \<and>
              amount \<le> int (length (novel item_id ranked))
           then Inr (take (nat amount) (novel item_id ranked)) else Inl ValueError) \<and>
   retrieve_recommendations (query ranked) item_id amount =
     (if amount \<le> int (length (novel item_id ranked))
      then Some (Inr (take (nat amount) (novel item_id ranked))) else None)"
  using retrieve_recommendations_kneighbors retrieve_recommendations_query by simp

theorem retrieval_loop_outcome_witness:
  "(0::int) < 3 \<and>
   retrieve_recommendations (kneighbors [0, 1, 2, 3, 4]) [0] 3 = Some (Inr [1, 2, 3]) \<and>
   retrieve_recommendations (query [0, 1, 2, 3, 4]) [0] 3 = Some (Inr [1, 2, 3])"
  using retrieval_loop_outcome [of 3 "[0, 1, 2, 3, 4]" "[0]"] by (simp add: novel_def)

text \<open>
  C1 as stated fails in the spec's own scenario: a catalogue of five items of which
  the user owns four, and \<open>amount = 3\<close>. The loop does not return the one obtainable
  recommendation: the library's index raises, the spec's index makes it run forever.
\<close>

theorem retrieval_loop_counterexample:
  "retrieve_recommendations (kneighbors [0, 1, 2, 3, 4]) [0, 1, 2, 3] 3 = Some (Inl ValueError) \<and>
   retrieve_recommendations (query [0, 1, 2, 3, 4]) [0, 1, 2, 3] 3 = None"
proof
  show "retrieve_recommendations (kneighbors [0, 1, 2, 3, 4]) [0, 1, 2, 3] 3 = Some (Inl ValueError)"
    by (simp add: retrieve_recommendations_def retrieve.simps kneighbors_def bind_res_def Let_def)
  have "retrieve (query [0, 1, 2, 3, 4]) [0, 1, 2, 3] 3 (3 div 5) [] = None"
    by (rule retrieve_query_diverges) (simp_all add: novel_def)
  then show "retrieve_recommendations (query [0, 1, 2, 3, 4]) [0, 1, 2, 3] 3 = None"
    by (simp add: retrieve_recommendations_def bind_res_def)
qed

section \<open>The length of a recommendation list\<close>

text \<open>
  The library's index answers a request for \<open>k\<close> neighbours, \<open>0 < k \<le> n\<close>, with \<open>k\<close>
  different items of the catalogue, and any other request with a ValueError.
\<close>

lemma set_neighbour_order: "set (neighbour_order d tie n) = {0..<n}"
  by (simp add: neighbour_order_def)

lemma distinct_neighbour_order: "distinct (neighbour_order d tie n)"
  by (simp add: neighbour_order_def)

lemma length_neighbour_order: "length (neighbour_order d tie n) = n"
  by (simp add: neighbour_order_def)

lemma sorted_neighbour_order: "sorted (map d (neighbour_order d tie n))"
proof -
  have "sorted (map (\<lambda>i. (d i, tie i, i)) (neighbour_order d tie n))"
    by (simp add: neighbour_order_def)
  then have "sorted_wrt (\<lambda>i j. (d i, tie i, i) \<le> (d j, tie j, j)) (neighbour_order d tie n)"
    by (simp add: sorted_map)
  then have "sorted_wrt (\<lambda>i j. d i \<le> d j) (neighbour_order d tie n)"
    by (rule sorted_wrt_mono_rel[rotated]) (auto simp: less_eq_prod_def)
  then show ?thesis by (simp add: sorted_map)
qed

lemma NearestNeighbors_Inr:
  assumes "NearestNeighbors metric ties n_neighbors X = Inr nbrs"
  shows "0 < n_neighbors"
    and "nbrs = (\<lambda>v k. kneighbors
                   (neighbour_order (\<lambda>i. metric v (snd X ! i)) (ties v k) (length (snd X))) k)"
  using assms by (auto simp: NearestNeighbors_def split: if_splits)

lemma NearestNeighbors_answers:
  assumes "NearestNeighbors metric ties n_neighbors X = Inr nbrs"
    and "0 < k" and "k \<le> int (length (snd X))"
  shows "\<exists>nns. nbrs v k = Inr nns \<and> int (length nns) = k \<and> distinct nns \<and>
           set nns \<subseteq> {0..<length (snd X)}"
proof -
  let ?ranked = "neighbour_order (\<lambda>i. metric v (snd X ! i)) (ties v k) (length (snd X))"
  from NearestNeighbors_Inr(2)[OF assms(1)] assms(2,3)
  have "nbrs v k = Inr (take (nat k) ?ranked)"
    by (simp add: kneighbors_def length_neighbour_order)
  moreover have "int (length (take (nat k) ?ranked)) = k"
    using assms(2,3) by (simp add: length_neighbour_order)
  moreover have "distinct (take (nat k) ?ranked)"
    by (simp add: distinct_neighbour_order)
  moreover have "set (take (nat k) ?ranked) \<subseteq> {0..<length (snd X)}"
    using set_take_subset[of "nat k" ?ranked] by (simp add: set_neighbour_order)
  ultimately show ?thesis by blast
qed

lemma NearestNeighbors_rejects:
  assumes "NearestNeighbors metric ties n_neighbors X = Inr nbrs"
    and "int (length (snd X)) < k"
  shows "nbrs v k = Inl ValueError"
  using NearestNeighbors_Inr(2)[OF assms(1)] assms(2)
  by (simp add: kneighbors_def length_neighbour_order)

lemma length_novel_ge:
  assumes "distinct nns"
  shows "length nns \<le> length (novel item_id nns) + card (set item_id)"
proof -
  have "length nns = card (set nns)" using assms by (simp add: distinct_card)
  also have "card (set nns) \<le> card (set (novel item_id nns) \<union> set item_id)"
    by (rule card_mono) (auto simp: novel_def)
  also have "\<dots> \<le> card (set (novel item_id nns)) + card (set item_id)"
    by (rule card_Un_le)
  also have "\<dots> \<le> length (novel item_id nns) + card (set item_id)"
    by (simp add: card_length)
  finally show ?thesis .
qed

lemma length_novel_le:
  assumes "distinct nns" and "set nns \<subseteq> {0..<n}" and "set item_id \<subseteq> {0..<n}"
  shows "length (novel item_id nns) + card (set item_id) \<le> n"
proof -
  have "distinct (novel item_id nns)" using assms(1) by (simp add: novel_def)
  then have "length (novel item_id nns) = card (set (novel item_id nns))"
    by (simp add: distinct_card)
  moreover have "set (novel item_id nns) \<inter> set item_id = {}" by (auto simp: novel_def)
  then have "card (set (novel item_id nns) \<union> set item_id)
      = card (set (novel item_id nns)) + card (set item_id)"
    by (simp add: card_Un_disjoint)
  moreover have "set (novel item_id nns) \<union> set item_id \<subseteq> {0..<n}"
    using assms(2,3) by (auto simp: novel_def)
  then have "card (set (novel item_id nns) \<union> set item_id) \<le> card {0..<n}"
    by (rule card_mono[rotated]) simp
  ultimately show ?thesis by simp
qed

lemma retrieve_exact_returns:
  assumes ans: "\<And>k. 0 < k \<Longrightarrow> k \<le> int n \<Longrightarrow>
      \<exists>nns. q k = Inr nns \<and> int (length nns) = k \<and> distinct nns \<and> set nns \<subseteq> {0..<n}"
    and fits: "amount + int (card (set item_id)) \<le> int n"
    and inv: "0 \<le> g" "g + (amount - int (length recs)) \<le> int n"
  shows "\<exists>r. retrieve q item_id amount g recs = Some (Inr r)"
  using inv
proof (induction "nat (int n - g)" arbitrary: g recs rule: less_induct)
  case less
  show ?case
  proof (cases "int (length recs) < amount")
    case False
    then show ?thesis by (subst retrieve.simps) simp
  next
    case True
    let ?g = "g + (amount - int (length recs))"
    from True less.prems have g': "0 < ?g" "?g \<le> int n" "g < ?g" by auto
    from ans[OF g'(1,2)] obtain nns where nns: "q ?g = Inr nns" "int (length nns) = ?g"
      "distinct nns" by blast
    let ?recs = "novel item_id nns"
    from length_novel_ge[OF nns(3), of item_id] nns(2) fits
    have "?g + (amount - int (length ?recs)) \<le> int n" by linarith
    moreover have "nat (int n - ?g) < nat (int n - g)" using g' by linarith
    ultimately obtain r where "retrieve q item_id amount ?g ?recs = Some (Inr r)"
      using less.hyps[of ?g ?recs] g' by auto
    with True nns(1) show ?thesis by (subst retrieve.simps) (simp add: Let_def novel_def)
  qed
qed

lemma retrieve_exact_raises:
  assumes ans: "\<And>k. 0 < k \<Longrightarrow> k \<le> int n \<Longrightarrow>
      \<exists>nns. q k = Inr nns \<and> int (length nns) = k \<and> distinct nns \<and> set nns \<subseteq> {0..<n}"
    and rej: "\<And>k. int n < k \<Longrightarrow> q k = Inl ValueError"
    and own: "set item_id \<subseteq> {0..<n}"
    and few: "int n < amount + int (card (set item_id))"
    and inv: "0 \<le> g" "int (length recs) < amount"
  shows "retrieve q item_id amount g recs = Some (Inl ValueError)"
  using inv
proof (induction "nat (int n - g)" arbitrary: g recs rule: less_induct)
  case less
  let ?g = "g + (amount - int (length recs))"
  from less.prems have g': "0 < ?g" "g < ?g" by auto
  show ?case
  proof (cases "int n < ?g")
    case True
    with rej less.prems(2) show ?thesis by (subst retrieve.simps) (simp add: Let_def)
  next
    case False
    then have le: "?g \<le> int n" by simp
    from ans[OF g'(1) le] obtain nns where nns: "q ?g = Inr nns" "distinct nns"
      "set nns \<subseteq> {0..<n}" by blast
    let ?recs = "novel item_id nns"
    from length_novel_le[OF nns(2,3) own] few have short: "int (length ?recs) < amount"
      by linarith
    have "nat (int n - ?g) < nat (int n - g)" using g' le by linarith
    from less.hyps[OF this, of ?recs] g' short
    have "retrieve q item_id amount ?g ?recs = Some (Inl ValueError)" by simp
    with less.prems(2) nns(1) show ?thesis
      by (subst retrieve.simps) (simp add: Let_def novel_def)
  qed
qed

lemma owned_items_Inr:
  assumes "owned_items X item_id = Inr owned"
  shows "set item_id \<subseteq> {0..<length X}"
  using assms
  by (auto simp: owned_items_def iloc_def bind_err_def split: if_splits)

text \<open>The loop of one user against the fitted index of the library.\<close>

lemma retrieve_recommendations_library:
  assumes fit: "NearestNeighbors metric ties n_neighbors X = Inr nbrs"
    and own: "set item_id \<subseteq> {0..<length (snd X)}"
    and pos: "0 < amount"
  shows "if amount + amount div 5 \<le> int (length (snd X)) \<and>
            amount + int (card (set item_id)) \<le> int (length (snd X))
         then \<exists>recs. retrieve_recommendations (nbrs v) item_id amount = Some (Inr recs) \<and>
                 int (length recs) = amount
         else retrieve_recommendations (nbrs v) item_id amount = Some (Inl ValueError)"
proof -
  let ?n = "length (snd X)"
  note ans = NearestNeighbors_answers[OF fit, of _ v]
  note rej = NearestNeighbors_rejects[OF fit, of _ v]
  from pos have g0: "0 \<le> amount div 5" by simp
  show ?thesis
  proof (cases "amount + amount div 5 \<le> int ?n")
    case first: True
    show ?thesis
    proof (cases "amount + int (card (set item_id)) \<le> int ?n")
      case True
      from first have "amount div 5 + (amount - int (length ([] :: item list))) \<le> int ?n" by simp
      from retrieve_exact_returns[of ?n "nbrs v", OF ans True g0 this]
      obtain r where r: "retrieve (nbrs v) item_id amount (amount div 5) [] = Some (Inr r)"
        by blast
      from retrieve_Inr[OF r] have "amount \<le> int (length r)" by simp
      with pos have "int (length (slice_to r amount)) = amount" by (simp add: slice_to_def)
      with r first True show ?thesis
        by (simp add: retrieve_recommendations_def bind_res_def)
    next
      case False
      then have few: "int ?n < amount + int (card (set item_id))" by simp
      from pos have "int (length ([] :: item list)) < amount" by simp
      from retrieve_exact_raises[of ?n "nbrs v", OF ans rej own few g0 this] False
      show ?thesis by (simp add: retrieve_recommendations_def bind_res_def)
    qed
  next
    case False
    then have "int ?n < amount div 5 + (amount - int (length ([] :: item list)))" by simp
    from rej[OF this] pos
    have "retrieve (nbrs v) item_id amount (amount div 5) [] = Some (Inl ValueError)"
      by (subst retrieve.simps) (simp add: Let_def)
    with False show ?thesis by (simp add: retrieve_recommendations_def bind_res_def)
  qed
qed

lemma library_count:
  assumes fit: "NearestNeighbors metric ties n_neighbors X = Inr nbrs"
    and own: "set item_id \<subseteq> {0..<length (snd X)}"
    and pos: "0 < amount"
    and res: "retrieve_recommendations (nbrs v) item_id amount = Some (Inr recs)"
  shows "amount \<le> int (length (snd X)) - int (card (set item_id)) \<and>
         int (length recs) = min amount (int (length (snd X)) - int (card (set item_id)))"
  using retrieve_recommendations_library[OF fit own pos, of v] res
  by (auto split: if_splits)

lemma recommend_user_library:
  assumes fit: "NearestNeighbors metric ties n_neighbors X = Inr nbrs"
    and owned: "owned_items (snd frame) item_id = Inr owned"
    and frame: "snd frame = snd X" "fst frame \<noteq> ObjectFrame"
    and pos: "0 < amount"
  shows "if amount + amount div 5 \<le> int (length (snd X)) \<and>
            amount \<le> int (length (snd X)) - int (card (set item_id))
         then \<exists>recs. recommend_user normalized nbrs frame amount item_id = Some (Inr recs) \<and>
                 int (length recs) = min amount (int (length (snd X)) - int (card (set item_id)))
         else recommend_user normalized nbrs frame amount item_id = Some (Inl ValueError)"
proof -
  from owned_items_Inr[OF owned] frame(1)
  have own: "set item_id \<subseteq> {0..<length (snd X)}" by simp
  have user: "recommend_user normalized nbrs frame amount item_id =
      retrieve_recommendations (nbrs (user_query normalized (mean owned))) item_id amount"
    using owned frame(2) by (simp add: recommend_user_def frame_mean_def)
  have "amount + int (card (set item_id)) \<le> int (length (snd X)) \<longleftrightarrow>
        amount \<le> int (length (snd X)) - int (card (set item_id))" by linarith
  with retrieve_recommendations_library[OF fit own pos, of "user_query normalized (mean owned)"]
  show ?thesis unfolding user by (auto split: if_splits)
qed

lemma recommend_user_improved_plain:
  assumes "\<not> use_feedback self" and "getitem cols row ''item_id'' = Inr item_id"
  shows "recommend_user_improved self nbrs frame amount cols (index, row) =
         recommend_user (normalize_rows self) nbrs frame amount item_id"
  using assms
  by (simp add: recommend_user_improved_def recommend_user_def cong: sum.case_cong)

lemma recommend_row_count:
  assumes fit: "NearestNeighbors metric ties n_neighbors X = Inr nbrs"
    and frame: "snd frame = snd X" and pos: "0 < amount"
    and res: "recommend_row normalized nbrs frame amount cols (index, row) = Some (Inr recs)"
  shows "case getitem cols row ''item_id'' of
           Inl e \<Rightarrow> False
         | Inr item_id \<Rightarrow>
             amount \<le> int (length (snd X)) - int (card (set item_id)) \<and>
             int (length recs) = min amount (int (length (snd X)) - int (card (set item_id)))"
proof (cases "getitem cols row ''item_id''")
  case (Inl e)
  with res show ?thesis by (simp add: recommend_row_def)
next
  case (Inr item_id)
  with res obtain owned v where owned: "owned_items (snd frame) item_id = Inr owned"
    and r: "retrieve_recommendations (nbrs v) item_id amount = Some (Inr recs)"
    by (auto simp: recommend_row_def recommend_user_def split: sum.splits)
  from owned_items_Inr[OF owned] frame
  have own: "set item_id \<subseteq> {0..<length (snd X)}" by simp
  from library_count[OF fit own pos r] Inr show ?thesis by simp
qed

lemma recommend_user_improved_count:
  assumes fit: "NearestNeighbors metric ties n_neighbors X = Inr nbrs"
    and frame: "snd frame = snd X" and pos: "0 < amount"
    and res: "recommend_user_improved self nbrs frame amount cols (index, row) = Some (Inr recs)"
  shows "case getitem cols row ''item_id'' of
           Inl e \<Rightarrow> False
         | Inr item_id \<Rightarrow>
             amount \<le> int (length (snd X)) - int (card (set item_id)) \<and>
             int (length recs) = min amount (int (length (snd X)) - int (card (set item_id)))"
proof (cases "getitem cols row ''item_id''")
  case (Inl e)
  with res show ?thesis by (simp add: recommend_user_improved_def)
next
  case (Inr item_id)
  with res obtain owned v where owned: "owned_items (snd frame) item_id = Inr owned"
    and r: "retrieve_recommendations (nbrs v) item_id amount = Some (Inr recs)"
    by (auto simp: recommend_user_improved_def split: sum.splits)
  from owned_items_Inr[OF owned] frame
  have own: "set item_id \<subseteq> {0..<length (snd X)}" by simp
  from library_count[OF fit own pos r] Inr show ?thesis by simp
qed

lemma snd_build_frame: "snd (build_frame b X) = snd X"
  by (simp add: build_frame_def)

lemma for_rows_Inr:
  "for_rows body xs = Some (Inr rs) \<Longrightarrow> list_all2 (\<lambda>x r. body x = Some (Inr r)) xs rs"
proof (induction xs arbitrary: rs)
  case Nil
  then show ?case by simp
next
  case (Cons x xs)
  then show ?case
    by (auto simp: bind_res_def split: option.splits sum.splits)
qed

lemma generate_recommendations_Inr:
  assumes "generate_recommendations self amount read_max = Some (Inr self')"
  obtains X nbrs recommendation_list where
    "encode self = Inr X" "method_nn self amount X = Inr nbrs"
    "for_rows (recommend_row (normalize_rows self) nbrs (content_frame self X) amount
         (columns (select_users read_max (train self))))
       (rows (select_users read_max (train self))) = Some (Inr recommendation_list)"
    "self' = store read_max (select_users read_max (train self)) recommendation_list self"
  using assms
  by (auto simp: generate_recommendations_def Let_def bind_res_def
      split: sum.splits option.splits)

lemma generate_recommendations_improved_Inr:
  assumes "snd (generate_recommendations_improved self amount read_max) = Some (Inr self')"
  obtains X nbrs recommendation_list where
    "encode_improved self = Inr X" "method_nn self amount X = Inr nbrs"
    "for_rows (recommend_user_improved self nbrs (item_frame self X) amount
         (columns (select_users read_max (train self))))
       (rows (select_users read_max (train self))) = Some (Inr recommendation_list)"
    "self' = store read_max (select_users read_max (train self)) recommendation_list self"
  using assms
  by (auto simp: generate_recommendations_improved_def Let_def bind_res_def
      split: sum.splits option.splits)

lemma recommendations_store:
  "recommendations (store read_max df recommendation_list self) =
     set_column ''recommendations'' recommendation_list df"
  by (simp add: store_def Let_def)

lemma generate_recommendations_count:
  assumes nn: "method_nn self = NearestNeighbors metric ties" and enc: "encode self = Inr X"
    and run: "generate_recommendations self amount read_max = Some (Inr self')"
  shows "0 < amount \<and>
         (\<exists>recommendation_list.
            recommendations self' =
              set_column ''recommendations'' recommendation_list (select_users read_max (train self)) \<and>
            full_lists (length (snd X)) amount (select_users read_max (train self))
              recommendation_list)"
proof -
  let ?df = "select_users read_max (train self)"
  from run enc obtain nbrs recommendation_list where
    fit: "method_nn self amount X = Inr nbrs"
    and rows: "for_rows (recommend_row (normalize_rows self) nbrs (content_frame self X) amount
                 (columns ?df)) (rows ?df) = Some (Inr recommendation_list)"
    and self': "self' = store read_max ?df recommendation_list self"
    by (auto elim!: generate_recommendations_Inr)
  from fit nn have fit': "NearestNeighbors metric ties amount X = Inr nbrs" by simp
  from NearestNeighbors_Inr(1)[OF fit'] have pos: "0 < amount" .
  have frame: "snd (content_frame self X) = snd X"
    by (simp add: content_frame_def snd_build_frame)
  have body: "case getitem (columns ?df) row ''item_id'' of
                Inl e \<Rightarrow> False
              | Inr item_id \<Rightarrow>
                  amount \<le> int (length (snd X)) - int (card (set item_id)) \<and>
                  int (length r) = min amount (int (length (snd X)) - int (card (set item_id)))"
    if "recommend_row (normalize_rows self) nbrs (content_frame self X) amount (columns ?df)
          (index, row) = Some (Inr r)" for index row r
    using recommend_row_count[OF fit' frame pos that] .
  from for_rows_Inr[OF rows] have "full_lists (length (snd X)) amount ?df recommendation_list"
    unfolding full_lists_def by (rule list_all2_mono) (use body in auto)
  with self' pos show ?thesis by (auto simp: recommendations_store)
qed

lemma generate_recommendations_improved_count:
  assumes nn: "method_nn self = NearestNeighbors metric ties"
    and enc: "encode_improved self = Inr X"
    and run: "snd (generate_recommendations_improved self amount read_max) = Some (Inr self')"
  shows "0 < amount \<and>
         (\<exists>recommendation_list.
            recommendations self' =
              set_column ''recommendations'' recommendation_list (select_users read_max (train self)) \<and>
            full_lists (length (snd X)) amount (select_users read_max (train self))
              recommendation_list)"
proof -
  let ?df = "select_users read_max (train self)"
  from run enc obtain nbrs recommendation_list where
    fit: "method_nn self amount X = Inr nbrs"
    and rows: "for_rows (recommend_user_improved self nbrs (item_frame self X) amount
                 (columns ?df)) (rows ?df) = Some (Inr recommendation_list)"
    and self': "self' = store read_max ?df recommendation_list self"
    by (auto elim!: generate_recommendations_improved_Inr)
  from fit nn have fit': "NearestNeighbors metric ties amount X = Inr nbrs" by simp
  from NearestNeighbors_Inr(1)[OF fit'] have pos: "0 < amount" .
  have frame: "snd (item_frame self X) = snd X"
    by (simp add: item_frame_def snd_build_frame)
  have body: "case getitem (columns ?df) row ''item_id'' of
                Inl e \<Rightarrow> False
              | Inr item_id \<Rightarrow>
                  amount \<le> int (length (snd X)) - int (card (set item_id)) \<and>
                  int (length r) = min amount (int (length (snd X)) - int (card (set item_id)))"
    if "recommend_user_improved self nbrs (item_frame self X) amount (columns ?df)
          (index, row) = Some (Inr r)" for index row r
    using recommend_user_improved_count[OF fit' frame pos that] .
  from for_rows_Inr[OF rows] have "full_lists (length (snd X)) amount ?df recommendation_list"
    unfolding full_lists_def by (rule list_all2_mono) (use body in auto)
  with self' pos show ?thesis by (auto simp: recommendations_store)
qed

text \<open>The examples, evaluated.\<close>

lemma example_order:
  "neighbour_order (\<lambda>i. cosine_distance [1, 0] (example_items ! i)) (example_ties [1, 0] k)
     (length example_items) = [0, 1, 2]"
  by (simp add: neighbour_order_def example_items_def example_ties_def cosine_distance_def
      dot_def norm2_def upt_rec)

lemma example_query: "example_nbrs [1, 0] = kneighbors [0, 1, 2]"
  by (rule ext) (simp add: example_nbrs_def example_order)

lemma example_fit:
  "0 < n_neighbors \<Longrightarrow>
   NearestNeighbors cosine_distance example_ties n_neighbors (Csr, example_items) = Inr example_nbrs"
  by (simp add: NearestNeighbors_def example_nbrs_def) (simp add: example_items_def)

lemma example_owned: "owned_items example_items [0] = Inr [[1, 0]]"
  by (simp add: owned_items_def iloc_def bind_err_def df_empty_def example_items_def)

lemma example_vector: "user_query False (mean [[1, 0]]) = [1, 0]"
  by (simp add: user_query_def mean_def)

lemma example_loop: "retrieve_recommendations (kneighbors [0, 1, 2]) [0] 1 = Some (Inr [1])"
  by (simp add: retrieve_recommendations_def retrieve.simps kneighbors_def bind_res_def
      slice_to_def Let_def)

lemma example_user:
  "recommend_user False example_nbrs (SparseFrame, example_items) 1 [0] = Some (Inr [1])"
proof -
  have "recommend_user False example_nbrs (SparseFrame, example_items) 1 [0] =
      retrieve_recommendations (example_nbrs (user_query False (mean [[1, 0]]))) [0] 1"
    unfolding recommend_user_def frame_mean_def by (simp add: example_owned)
  then show ?thesis unfolding example_vector example_query example_loop .
qed

lemma example_encode: "encode example_recommender = Inr (Csr, example_items)"
  by (simp add: encode_def example_recommender_def bind_err_def)

lemma example_encode_improved: "encode_improved example_improved = Inr (Csr, example_items)"
  by (simp add: encode_improved_def example_improved_def bind_err_def)

lemma example_store:
  "store None example_train [[1]] self =
     self\<lparr>train := \<lparr>columns = [''item_id'', ''recommendations''], rows = [(1, [[0], [1]])]\<rparr>,
          recommendations :=
            \<lparr>columns = [''item_id'', ''recommendations''], rows = [(1, [[0], [1]])]\<rparr>\<rparr>"
  by (simp add: store_def Let_def set_column_def set_cell_def example_train_def)

lemma example_generation:
  "generate_recommendations example_recommender 1 None =
     Some (Inr (example_recommender
       \<lparr>train := \<lparr>columns = [''item_id'', ''recommendations''], rows = [(1, [[0], [1]])]\<rparr>,
        recommendations :=
          \<lparr>columns = [''item_id'', ''recommendations''], rows = [(1, [[0], [1]])]\<rparr>\<rparr>))"
proof -
  have fit: "method_nn example_recommender 1 (Csr, example_items) = Inr example_nbrs"
    using example_fit[of 1] by (simp add: example_recommender_def)
  have df: "select_users None (train example_recommender) = example_train"
    by (simp add: select_users_def example_recommender_def)
  have norm: "normalize_rows example_recommender = False"
    by (simp add: example_recommender_def)
  have frame: "content_frame example_recommender (Csr, example_items) = (SparseFrame, example_items)"
    by (simp add: content_frame_def build_frame_def example_recommender_def)
  have "generate_recommendations example_recommender 1 None =
      Some (Inr (store None example_train [[1]] example_recommender))"
    by (simp add: generate_recommendations_def example_encode fit df norm frame Let_def
        example_train_def recommend_row_def getitem_def example_user bind_res_def)
  then show ?thesis unfolding example_store .
qed

lemma example_user_improved:
  "recommend_user_improved example_improved example_nbrs (SparseFrame, example_items) 1
     [''item_id''] (index, [[0]]) = Some (Inr [1])"
proof -
  have flags: "\<not> use_feedback example_improved" "normalize_rows example_improved = False"
    by (simp_all add: example_improved_def)
  have "getitem [''item_id''] [[0]] ''item_id'' = Inr [0]" by (simp add: getitem_def)
  from recommend_user_improved_plain[OF flags(1) this] show ?thesis
    by (simp add: flags(2) example_user)
qed

lemma example_generation_improved:
  "generate_recommendations_improved example_improved 1 None =
     ([], Some (Inr (example_improved
       \<lparr>train := \<lparr>columns = [''item_id'', ''recommendations''], rows = [(1, [[0], [1]])]\<rparr>,
        recommendations :=
          \<lparr>columns = [''item_id'', ''recommendations''], rows = [(1, [[0], [1]])]\<rparr>\<rparr>)))"
proof -
  have fit: "method_nn example_improved 1 (Csr, example_items) = Inr example_nbrs"
    using example_fit[of 1] by (simp add: example_improved_def)
  have df: "select_users None (train example_improved) = example_train"
    by (simp add: select_users_def example_improved_def)
  have frame: "item_frame example_improved (Csr, example_items) = (SparseFrame, example_items)"
    by (simp add: item_frame_def build_frame_def example_improved_def)
  have warn: "conflict_warnings example_improved = []"
    by (simp add: conflict_warnings_def example_improved_def)
  have "generate_recommendations_improved example_improved 1 None =
      ([], Some (Inr (store None example_train [[1]] example_improved)))"
    by (simp add: generate_recommendations_improved_def example_encode_improved fit df frame warn
        Let_def example_train_def example_user_improved bind_res_def)
  then show ?thesis unfolding example_store .
qed

lemma two_owned_user:
  "recommend_user False example_nbrs (SparseFrame, example_items) 2 [0, 1] = Some (Inl ValueError)"
proof -
  have owned: "owned_items example_items [0, 1] = Inr [[1, 0], [1, 0]]"
    by (simp add: owned_items_def iloc_def bind_err_def df_empty_def example_items_def)
  have vec: "user_query False (mean [[1, 0], [1, 0]]) = [1, 0]"
    by (simp add: user_query_def mean_def)
  have loop: "retrieve_recommendations (kneighbors [0, 1, 2]) [0, 1] 2 = Some (Inl ValueError)"
    by (simp add: retrieve_recommendations_def retrieve.simps kneighbors_def bind_res_def Let_def)
  have "recommend_user False example_nbrs (SparseFrame, example_items) 2 [0, 1] =
      retrieve_recommendations (example_nbrs (user_query False (mean [[1, 0], [1, 0]]))) [0, 1] 2"
    unfolding recommend_user_def frame_mean_def by (simp add: owned del: One_nat_def)
  then show ?thesis unfolding vec example_query loop .
qed

text \<open>
  C3 (amended). With the index of the library, fitted for \<^verbatim>\<open>amount\<close> neighbours
  (which needs \<open>0 < amount\<close>), the loop body of a user whose owned rows are found and
  averaged produces a list exactly when \<open>amount + amount div 5\<close> is at most the
  catalogue size and \<open>amount\<close> is at most the catalogue size minus the size of the
  exclusion set; the list then has length \<open>min amount (catalogue size - |exclusion set|)\<close>,
  and in every other case the body ends in the ValueError of the index. The body of
  the \<^verbatim>\<open>ImprovedRecommender\<close> without feedback is the same body. So whenever a run
  of \<^verbatim>\<open>generate_recommendations\<close> of either recommender produces its table,
  \<open>0 < amount\<close> and the assigned column holds, for every user, a list of that length,
  with \<open>amount\<close> not above the catalogue size minus the exclusion set of any user: no
  shorter list is produced.
\<close>

theorem recommendation_count:
  "(NearestNeighbors metric ties amount X = Inr nbrs \<and>
    owned_items (snd frame) item_id = Inr owned \<and> snd frame = snd X \<and>
    fst frame \<noteq> ObjectFrame \<longrightarrow>
      (if amount + amount div 5 \<le> int (length (snd X)) \<and>
          amount \<le> int (length (snd X)) - int (card (set item_id))
       then \<exists>recs. recommend_user normalized nbrs frame amount item_id = Some (Inr recs) \<and>
              int (length recs) = min amount (int (length (snd X)) - int (card (set item_id)))
       else recommend_user normalized nbrs frame amount item_id = Some (Inl ValueError))) \<and>
   (\<not> use_feedback improved_self \<and> getitem cols row ''item_id'' = Inr item_id \<longrightarrow>
      recommend_user_improved improved_self nbrs frame amount cols (index, row) =
      recommend_user (normalize_rows improved_self) nbrs frame amount item_id) \<and>
   (method_nn self = NearestNeighbors metric ties \<and> encode self = Inr X \<and>
    generate_recommendations self amount read_max = Some (Inr self') \<longrightarrow>
      0 < amount \<and>
      (\<exists>recommendation_list.
         recommendations self' =
           set_column ''recommendations'' recommendation_list (select_users read_max (train self)) \<and>
         full_lists (length (snd X)) amount (select_users read_max (train self))
           recommendation_list)) \<and>
   (method_nn improved_self = NearestNeighbors metric ties \<and> encode_improved improved_self = Inr X \<and>
    snd (generate_recommendations_improved improved_self amount read_max)
      = Some (Inr improved_self') \<longrightarrow>
      0 < amount \<and>
      (\<exists>recommendation_list.
         recommendations improved_self' =
           set_column ''recommendations'' recommendation_list
             (select_users read_max (train improved_self)) \<and>
         full_lists (length (snd X)) amount (select_users read_max (train improved_self))
           recommendation_list))"
proof (intro conjI impI; (elim conjE)?)
  assume fit: "NearestNeighbors metric ties amount X = Inr nbrs"
    and owned: "owned_items (snd frame) item_id = Inr owned"
    and frame: "snd frame = snd X" "fst frame \<noteq> ObjectFrame"
  from NearestNeighbors_Inr(1)[OF fit] have "0 < amount" .
  from recommend_user_library[OF fit owned frame this]
  show "if amount + amount div 5 \<le> int (length (snd X)) \<and>
          amount \<le> int (length (snd X)) - int (card (set item_id))
       then \<exists>recs. recommend_user normalized nbrs frame amount item_id = Some (Inr recs) \<and>
              int (length recs) = min amount (int (length (snd X)) - int (card (set item_id)))
       else recommend_user normalized nbrs frame amount item_id = Some (Inl ValueError)" .
next
  assume "\<not> use_feedback improved_self" "getitem cols row ''item_id'' = Inr item_id"
  then show "recommend_user_improved improved_self nbrs frame amount cols (index, row) =
      recommend_user (normalize_rows improved_self) nbrs frame amount item_id"
    by (rule recommend_user_improved_plain)
next
  assume "method_nn self = NearestNeighbors metric ties" "encode self = Inr X"
    "generate_recommendations self amount read_max = Some (Inr self')"
  from generate_recommendations_count[OF this]
  show "0 < amount"
    and "\<exists>recommendation_list.
         recommendations self' =
           set_column ''recommendations'' recommendation_list (select_users read_max (train self)) \<and>
         full_lists (length (snd X)) amount (select_users read_max (train self))
           recommendation_list"
    by simp_all
next
  assume "method_nn improved_self = NearestNeighbors metric ties"
    "encode_improved improved_self = Inr X"
    "snd (generate_recommendations_improved improved_self amount read_max) = Some (Inr improved_self')"
  from generate_recommendations_improved_count[OF this]
  show "0 < amount"
    and "\<exists>recommendation_list.
         recommendations improved_self' =
           set_column ''recommendations'' recommendation_list
             (select_users read_max (train improved_self)) \<and>
         full_lists (length (snd X)) amount (select_users read_max (train improved_self))
           recommendation_list"
    by simp_all
qed

theorem recommendation_count_witness:
  "NearestNeighbors cosine_distance example_ties 1 (Csr, example_items) = Inr example_nbrs \<and>
   owned_items (snd (SparseFrame, example_items)) [0] = Inr [[1, 0]] \<and>
   snd (SparseFrame, example_items) = snd (Csr, example_items) \<and>
   fst (SparseFrame, example_items) \<noteq> ObjectFrame \<and>
   (1 :: int) + 1 div 5 \<le> int (length (snd (Csr, example_items))) \<and>
   (1 :: int) \<le> int (length (snd (Csr, example_items))) - int (card (set [0 :: item])) \<and>
   recommend_user False example_nbrs (SparseFrame, example_items) 1 [0] = Some (Inr [1]) \<and>
   int (length [1 :: item]) =
     min 1 (int (length (snd (Csr, example_items))) - int (card (set [0 :: item]))) \<and>
   \<not> use_feedback example_improved \<and> getitem [''item_id''] [[0]] ''item_id'' = Inr [0] \<and>
   recommend_user_improved example_improved example_nbrs (SparseFrame, example_items) 1
     [''item_id''] (1, [[0]]) = Some (Inr [1]) \<and>
   method_nn example_recommender = NearestNeighbors cosine_distance example_ties \<and>
   encode example_recommender = Inr (Csr, example_items) \<and>
   generate_recommendations example_recommender 1 None =
     Some (Inr (example_recommender
       \<lparr>train := \<lparr>columns = [''item_id'', ''recommendations''], rows = [(1, [[0], [1]])]\<rparr>,
        recommendations :=
          \<lparr>columns = [''item_id'', ''recommendations''], rows = [(1, [[0], [1]])]\<rparr>\<rparr>)) \<and>
   method_nn example_improved = NearestNeighbors cosine_distance example_ties \<and>
   encode_improved example_improved = Inr (Csr, example_items) \<and>
   snd (generate_recommendations_improved example_improved 1 None) =
     Some (Inr (example_improved
       \<lparr>train := \<lparr>columns = [''item_id'', ''recommendations''], rows = [(1, [[0], [1]])]\<rparr>,
        recommendations :=
          \<lparr>columns = [''item_id'', ''recommendations''], rows = [(1, [[0], [1]])]\<rparr>\<rparr>)) \<and>
   (\<exists>recommendation_list.
      \<lparr>columns = [''item_id'', ''recommendations''], rows = [(1, [[0], [1]])]\<rparr> =
        set_column ''recommendations'' recommendation_list example_train \<and>
      full_lists (length (snd (Csr, example_items))) 1 example_train recommendation_list)"
proof -
  let ?t = "\<lparr>columns = [''item_id'', ''recommendations''], rows = [(1 :: user, [[0], [1 :: item]])]\<rparr>"
  have fit: "NearestNeighbors cosine_distance example_ties 1 (Csr, example_items) = Inr example_nbrs"
    by (rule example_fit) simp
  have owned: "owned_items (snd (SparseFrame, example_items)) [0] = Inr [[1, 0]]"
    by (simp add: example_owned)
  have frame: "snd (SparseFrame, example_items) = snd (Csr, example_items)"
    "fst (SparseFrame, example_items) \<noteq> ObjectFrame"
    by simp_all
  have size: "(1 :: int) + 1 div 5 \<le> int (length (snd (Csr, example_items)))"
    "(1 :: int) \<le> int (length (snd (Csr, example_items))) - int (card (set [0 :: item]))"
    by (simp_all add: example_items_def)
  have count: "int (length [1 :: item]) =
     min 1 (int (length (snd (Csr, example_items))) - int (card (set [0 :: item])))"
    by (simp add: example_items_def)
  have plain: "\<not> use_feedback example_improved" "getitem [''item_id''] [[0]] ''item_id'' = Inr [0]"
    by (simp_all add: example_improved_def getitem_def)
  have nn: "method_nn example_recommender = NearestNeighbors cosine_distance example_ties"
    "method_nn example_improved = NearestNeighbors cosine_distance example_ties"
    by (simp_all add: example_recommender_def example_improved_def)
  have df: "select_users None (train example_recommender) = example_train"
    by (simp add: select_users_def example_recommender_def)
  have g: "generate_recommendations example_recommender 1 None =
     Some (Inr (example_recommender\<lparr>train := ?t, recommendations := ?t\<rparr>))"
    by (rule example_generation)
  have gi: "snd (generate_recommendations_improved example_improved 1 None) =
     Some (Inr (example_improved\<lparr>train := ?t, recommendations := ?t\<rparr>))"
    by (simp add: example_generation_improved)
  note count_at = recommendation_count
    [where metric = cosine_distance and ties = example_ties and amount = 1
       and X = "(Csr, example_items)" and nbrs = example_nbrs
       and frame = "(SparseFrame, example_items)" and item_id = "[0]" and owned = "[[1, 0]]"
       and normalized = False and improved_self = example_improved
       and cols = "[''item_id'']" and row = "[[0]]" and index = 1
       and self = example_recommender and read_max = None
       and self' = "example_recommender\<lparr>train := ?t, recommendations := ?t\<rparr>"
       and improved_self' = "example_improved\<lparr>train := ?t, recommendations := ?t\<rparr>"]
  from count_at[THEN conjunct2, THEN conjunct2, THEN conjunct1] nn(1) example_encode g
  have "\<exists>recommendation_list.
      recommendations (example_recommender\<lparr>train := ?t, recommendations := ?t\<rparr>) =
        set_column ''recommendations'' recommendation_list
          (select_users None (train example_recommender)) \<and>
      full_lists (length (snd (Csr, example_items))) 1
        (select_users None (train example_recommender)) recommendation_list"
    by blast
  then have "\<exists>recommendation_list.
      ?t = set_column ''recommendations'' recommendation_list example_train \<and>
      full_lists (length (snd (Csr, example_items))) 1 example_train recommendation_list"
    unfolding df by simp
  with fit owned frame size count plain nn example_encode example_encode_improved g gi
    example_user example_user_improved[of 1]
  show ?thesis by simp
qed

text \<open>
  C3 as stated fails when fewer than \<open>amount\<close> non-excluded items exist: a catalogue
  of three items of which the only user owns two, \<open>amount = 2\<close>. The claim gives that
  user a list of length one; the run of either recommender ends in the ValueError of
  the index and produces no list.
\<close>

theorem recommendation_count_counterexample:
  "min (2 :: int) (int (length example_items) - int (card (set [0, 1 :: item]))) = 1 \<and>
   rows (select_users None (train (example_recommender\<lparr>train := two_owned_train\<rparr>)))
     = [(1, [[0, 1]])] \<and>
   generate_recommendations (example_recommender\<lparr>train := two_owned_train\<rparr>) 2 None
     = Some (Inl ValueError) \<and>
   snd (generate_recommendations_improved (example_improved\<lparr>train := two_owned_train\<rparr>) 2 None)
     = Some (Inl ValueError)"
proof (intro conjI)
  let ?R = "example_recommender\<lparr>train := two_owned_train\<rparr>"
  let ?I = "example_improved\<lparr>train := two_owned_train\<rparr>"
  show "min (2 :: int) (int (length example_items) - int (card (set [0, 1 :: item]))) = 1"
    by (simp add: example_items_def)
  show "rows (select_users None (train ?R)) = [(1, [[0, 1]])]"
    by (simp add: select_users_def two_owned_train_def)
  have df: "select_users None (train ?R) = two_owned_train"
    "select_users None (train ?I) = two_owned_train"
    by (simp_all add: select_users_def)
  have enc: "encode ?R = Inr (Csr, example_items)"
    "encode_improved ?I = Inr (Csr, example_items)"
    by (simp_all add: encode_def encode_improved_def example_recommender_def
        example_improved_def bind_err_def)
  have fit: "method_nn example_recommender 2 (Csr, example_items) = Inr example_nbrs"
    "method_nn example_improved 2 (Csr, example_items) = Inr example_nbrs"
    using example_fit[of 2] by (simp_all add: example_recommender_def example_improved_def)
  have warn: "conflict_warnings ?I = []"
    by (simp add: conflict_warnings_def example_improved_def)
  have flags: "normalize_rows example_recommender = False"
    "normalize_rows (example_improved\<lparr>train := t\<rparr>) = False"
    "\<not> use_feedback (example_improved\<lparr>train := t\<rparr>)" for t
    by (simp_all add: example_recommender_def example_improved_def)
  have frame: "content_frame (example_recommender\<lparr>train := t\<rparr>) (Csr, example_items)
      = (SparseFrame, example_items)"
    "item_frame (example_improved\<lparr>train := t\<rparr>) (Csr, example_items)
      = (SparseFrame, example_items)" for t
    by (simp_all add: content_frame_def item_frame_def build_frame_def example_recommender_def
        example_improved_def)
  have get: "getitem [''item_id''] [[0, 1]] ''item_id'' = Inr [0, 1]"
    by (simp add: getitem_def)
  have row: "recommend_row False example_nbrs (SparseFrame, example_items) 2 [''item_id'']
      (1, [[0, 1]]) = Some (Inl ValueError)"
    unfolding recommend_row_def by (simp add: get two_owned_user del: One_nat_def)
  have rowi: "recommend_user_improved (example_improved\<lparr>train := t\<rparr>) example_nbrs
      (SparseFrame, example_items) 2 [''item_id''] (1, [[0, 1]]) = Some (Inl ValueError)" for t
    unfolding recommend_user_improved_plain[OF flags(3) get] flags(2) by (rule two_owned_user)
  show "generate_recommendations ?R 2 None = Some (Inl ValueError)"
    unfolding generate_recommendations_def Let_def df enc
    by (simp add: fit flags(1) frame two_owned_train_def row bind_res_def del: One_nat_def)
  show "snd (generate_recommendations_improved ?I 2 None) = Some (Inl ValueError)"
    unfolding generate_recommendations_improved_def Let_def df enc
    by (simp add: fit warn frame two_owned_train_def rowi bind_res_def del: One_nat_def)
qed

section \<open>Exclusion of the owned items\<close>







section \<open>The order of the neighbour list\<close>

lemma sorted_take_map: "sorted (map d xs) \<Longrightarrow> sorted (map d (take k xs))"
  by (simp add: sorted_map sorted_wrt_take)

lemma sorted_novel_map: "sorted (map d xs) \<Longrightarrow> sorted (map d (novel item_id xs))"
  by (simp add: sorted_map novel_def sorted_wrt_filter)

lemma sorted_slice_to_map: "sorted (map d xs) \<Longrightarrow> sorted (map d (slice_to xs k))"
  by (simp add: slice_to_def sorted_take_map)

lemma NearestNeighbors_sorted:
  assumes "NearestNeighbors metric ties n_neighbors X = Inr nbrs" and "nbrs v k = Inr nns"
  shows "sorted (map (\<lambda>i. metric v (snd X ! i)) nns)"
proof -
  let ?d = "\<lambda>i. metric v (snd X ! i)"
  from NearestNeighbors_Inr(2)[OF assms(1)] assms(2)
  have "nns = take (nat k) (neighbour_order ?d (ties v k) (length (snd X)))"
    by (auto simp: kneighbors_def split: if_splits)
  then show ?thesis by (simp add: sorted_take_map sorted_neighbour_order)
qed

lemma retrieve_recommendations_sorted:
  assumes answers: "\<And>k nns. q k = Inr nns \<Longrightarrow> sorted (map d nns)"
    and res: "retrieve_recommendations q item_id amount = Some (Inr recs)"
  shows "sorted (map d recs)"
proof -
  from res obtain r where r: "retrieve q item_id amount (amount div 5) [] = Some (Inr r)"
    and recs: "recs = slice_to r amount"
    by (auto simp: retrieve_recommendations_def bind_res_def split: option.splits sum.splits)
  from retrieve_Inr[OF r] have "r = [] \<or> (\<exists>k nns. q k = Inr nns \<and> r = novel item_id nns)"
    by auto
  with answers have "sorted (map d r)" by (auto intro: sorted_novel_map)
  with recs show ?thesis by (simp add: sorted_slice_to_map)
qed

lemma tied_order:
  "neighbour_order (\<lambda>i. cosine_distance [0, 1] (tied_items ! i)) (tied_ties [0, 1] k)
     (length tied_items) = [4, 0, 2, 1, 3]"
  by (simp add: neighbour_order_def tied_items_def tied_ties_def cosine_distance_def
      dot_def norm2_def upt_rec)

lemma tied_query: "tied_nbrs [0, 1] = kneighbors [4, 0, 2, 1, 3]"
  by (rule ext) (simp add: tied_nbrs_def tied_order)

lemma tied_fit:
  "0 < n_neighbors \<Longrightarrow>
   NearestNeighbors cosine_distance tied_ties n_neighbors (Csr, tied_items) = Inr tied_nbrs"
  by (simp add: NearestNeighbors_def tied_nbrs_def) (simp add: tied_items_def)

lemma tied_distances:
  "map (\<lambda>i. cosine_distance [0, 1] (tied_items ! i)) [4, 0, 2, 1, 3] = [0, 1, 1, 1, 1]"
  by (simp add: tied_items_def cosine_distance_def dot_def norm2_def)

lemma tied_user:
  "recommend_user False tied_nbrs (SparseFrame, tied_items) 2 [4] = Some (Inr [0, 2])"
proof -
  have owned: "owned_items tied_items [4] = Inr [[0, 1]]"
    by (simp add: owned_items_def iloc_def bind_err_def df_empty_def tied_items_def)
  have vec: "user_query False (mean [[0, 1]]) = [0, 1]"
    by (simp add: user_query_def mean_def)
  have loop: "retrieve_recommendations (kneighbors [4, 0, 2, 1, 3]) [4] 2 = Some (Inr [0, 2])"
    by (simp add: retrieve_recommendations_def retrieve.simps kneighbors_def bind_res_def
        slice_to_def Let_def)
  have "recommend_user False tied_nbrs (SparseFrame, tied_items) 2 [4] =
      retrieve_recommendations (tied_nbrs (user_query False (mean [[0, 1]]))) [4] 2"
    unfolding recommend_user_def frame_mean_def by (simp add: owned del: One_nat_def)
  then show ?thesis unfolding vec tied_query loop .
qed

lemma tied_generation:
  "generate_recommendations tied_recommender 2 None =
     Some (Inr (tied_recommender
       \<lparr>train := \<lparr>columns = [''item_id'', ''recommendations''], rows = [(1, [[4], [0, 2]])]\<rparr>,
        recommendations :=
          \<lparr>columns = [''item_id'', ''recommendations''], rows = [(1, [[4], [0, 2]])]\<rparr>\<rparr>))"
proof -
  let ?train = "\<lparr>columns = [''item_id''], rows = [(1 :: user, [[4 :: item]])]\<rparr>"
  have enc: "encode tied_recommender = Inr (Csr, tied_items)"
    by (simp add: encode_def tied_recommender_def example_recommender_def bind_err_def)
  have fit: "method_nn tied_recommender 2 (Csr, tied_items) = Inr tied_nbrs"
    using tied_fit[of 2] by (simp add: tied_recommender_def)
  have df: "select_users None (train tied_recommender) = ?train"
    by (simp add: select_users_def tied_recommender_def)
  have norm: "normalize_rows tied_recommender = False"
    by (simp add: tied_recommender_def example_recommender_def)
  have frame: "content_frame tied_recommender (Csr, tied_items) = (SparseFrame, tied_items)"
    by (simp add: content_frame_def build_frame_def tied_recommender_def example_recommender_def)
  have get: "getitem [''item_id''] [[4]] ''item_id'' = Inr [4]" by (simp add: getitem_def)
  have row: "recommend_row False tied_nbrs (SparseFrame, tied_items) 2 [''item_id'']
      (index, [[4]]) = Some (Inr [0, 2])" for index
    unfolding recommend_row_def by (simp add: get tied_user)
  have "generate_recommendations tied_recommender 2 None =
      Some (Inr (store None ?train [[0, 2]] tied_recommender))"
    unfolding generate_recommendations_def Let_def df enc
    by (simp add: fit norm frame row bind_res_def del: One_nat_def)
  moreover have "store None ?train [[0, 2]] tied_recommender =
      tied_recommender
       \<lparr>train := \<lparr>columns = [''item_id'', ''recommendations''], rows = [(1, [[4], [0, 2]])]\<rparr>,
        recommendations :=
          \<lparr>columns = [''item_id'', ''recommendations''], rows = [(1, [[4], [0, 2]])]\<rparr>\<rparr>"
    by (simp add: store_def Let_def set_column_def set_cell_def)
  ultimately show ?thesis by (simp only:)
qed

text \<open>
  C5 (amended). For every query vector \<open>v\<close> and every requested count \<open>k\<close> the list with
  which the library's index, fitted with the cosine metric, answers is in ascending
  cosine distance from \<open>v\<close>, one minus the quotient of the inner product by the product
  of the Euclidean norms; and the list that the loop body produces for a user is in
  ascending cosine distance from the user's query vector, the mean of the owned rows
  (normalised when rows are). Nothing is said of the order of equidistant items.
\<close>

theorem neighbours_nearest_first:
  "(NearestNeighbors cosine_distance ties n_neighbors X = Inr nbrs \<and> nbrs v k = Inr nns \<longrightarrow>
      sorted (map (\<lambda>i. 1 - sum_list (map2 (*) v (snd X ! i)) /
                          (sqrt (sum_list (map2 (*) v v)) *
                           sqrt (sum_list (map2 (*) (snd X ! i) (snd X ! i))))) nns)) \<and>
   (NearestNeighbors cosine_distance ties n_neighbors X = Inr nbrs \<and> snd frame = snd X \<and>
    recommend_user normalized nbrs frame amount item_id = Some (Inr recs) \<longrightarrow>
      (\<exists>owned. owned_items (snd X) item_id = Inr owned \<and>
         sorted (map (\<lambda>i. 1 - sum_list (map2 (*) (user_query normalized (mean owned)) (snd X ! i)) /
                             (sqrt (sum_list (map2 (*) (user_query normalized (mean owned))
                                                (user_query normalized (mean owned)))) *
                              sqrt (sum_list (map2 (*) (snd X ! i) (snd X ! i))))) recs)))"
proof (intro conjI impI; elim conjE)
  assume fit: "NearestNeighbors cosine_distance ties n_neighbors X = Inr nbrs"
    and nns: "nbrs v k = Inr nns"
  from NearestNeighbors_sorted[OF fit nns]
  show "sorted (map (\<lambda>i. 1 - sum_list (map2 (*) v (snd X ! i)) /
                          (sqrt (sum_list (map2 (*) v v)) *
                           sqrt (sum_list (map2 (*) (snd X ! i) (snd X ! i))))) nns)"
    by (simp add: cosine_distance_def dot_def norm2_def)
next
  assume fit: "NearestNeighbors cosine_distance ties n_neighbors X = Inr nbrs"
    and frame: "snd frame = snd X"
    and res: "recommend_user normalized nbrs frame amount item_id = Some (Inr recs)"
  from res frame obtain owned where owned: "owned_items (snd X) item_id = Inr owned"
    and r: "retrieve_recommendations (nbrs (user_query normalized (mean owned))) item_id amount
              = Some (Inr recs)"
    by (auto simp: recommend_user_def frame_mean_def split: sum.splits if_splits)
  let ?v = "user_query normalized (mean owned)"
  have "sorted (map (\<lambda>i. cosine_distance ?v (snd X ! i)) recs)"
    by (rule retrieve_recommendations_sorted[OF _ r]) (rule NearestNeighbors_sorted[OF fit])
  then have "sorted (map (\<lambda>i. 1 - sum_list (map2 (*) ?v (snd X ! i)) /
                             (sqrt (sum_list (map2 (*) ?v ?v)) *
                              sqrt (sum_list (map2 (*) (snd X ! i) (snd X ! i))))) recs)"
    by (simp add: cosine_distance_def dot_def norm2_def)
  with owned show "\<exists>owned. owned_items (snd X) item_id = Inr owned \<and>
         sorted (map (\<lambda>i. 1 - sum_list (map2 (*) (user_query normalized (mean owned)) (snd X ! i)) /
                             (sqrt (sum_list (map2 (*) (user_query normalized (mean owned))
                                                (user_query normalized (mean owned)))) *
                              sqrt (sum_list (map2 (*) (snd X ! i) (snd X ! i))))) recs)"
    by blast
qed

theorem neighbours_nearest_first_witness:
  "NearestNeighbors cosine_distance tied_ties 2 (Csr, tied_items) = Inr tied_nbrs \<and>
   tied_nbrs [0, 1] 5 = Inr [4, 0, 2, 1, 3] \<and>
   map (\<lambda>i. cosine_distance [0, 1] (tied_items ! i)) [4, 0, 2, 1, 3] = [0, 1, 1, 1, 1] \<and>
   sorted (map (\<lambda>i. 1 - sum_list (map2 (*) [0, 1] (snd (Csr, tied_items) ! i)) /
                       (sqrt (sum_list (map2 (*) [0, 1] [0, 1])) *
                        sqrt (sum_list (map2 (*) (snd (Csr, tied_items) ! i)
                                          (snd (Csr, tied_items) ! i))))) [4, 0, 2, 1, 3]) \<and>
   snd (SparseFrame, tied_items) = snd (Csr, tied_items) \<and>
   recommend_user False tied_nbrs (SparseFrame, tied_items) 2 [4] = Some (Inr [0, 2]) \<and>
   owned_items (snd (Csr, tied_items)) [4] = Inr [[0, 1]] \<and>
   user_query False (mean [[0, 1]]) = [0, 1] \<and>
   sorted (map (\<lambda>i. 1 - sum_list (map2 (*) [0, 1] (snd (Csr, tied_items) ! i)) /
                       (sqrt (sum_list (map2 (*) [0, 1] [0, 1])) *
                        sqrt (sum_list (map2 (*) (snd (Csr, tied_items) ! i)
                                          (snd (Csr, tied_items) ! i))))) [0, 2])"
proof -
  have fit: "NearestNeighbors cosine_distance tied_ties 2 (Csr, tied_items) = Inr tied_nbrs"
    by (rule tied_fit) simp
  have nns: "tied_nbrs [0, 1] 5 = Inr [4, 0, 2, 1, 3]"
    unfolding tied_query by (simp add: kneighbors_def)
  have frame: "snd (SparseFrame, tied_items) = snd (Csr, tied_items)" by simp
  have owned: "owned_items (snd (Csr, tied_items)) [4] = Inr [[0, 1]]"
    by (simp add: owned_items_def iloc_def bind_err_def df_empty_def tied_items_def)
  have vec: "user_query False (mean [[0, 1]]) = [0, 1]"
    by (simp add: user_query_def mean_def)
  note order_at = neighbours_nearest_first
    [where ties = tied_ties and n_neighbors = 2 and X = "(Csr, tied_items)" and nbrs = tied_nbrs
       and v = "[0, 1]" and k = 5 and nns = "[4, 0, 2, 1, 3]"
       and frame = "(SparseFrame, tied_items)" and normalized = False and amount = 2
       and item_id = "[4]" and recs = "[0, 2]"]
  from order_at[THEN conjunct1] fit nns
  have 1: "sorted (map (\<lambda>i. 1 - sum_list (map2 (*) [0, 1] (snd (Csr, tied_items) ! i)) /
                       (sqrt (sum_list (map2 (*) [0, 1] [0, 1])) *
                        sqrt (sum_list (map2 (*) (snd (Csr, tied_items) ! i)
                                          (snd (Csr, tied_items) ! i))))) [4, 0, 2, 1, 3])"
    by blast
  from order_at[THEN conjunct2] fit frame tied_user
  obtain owned' where "owned_items (snd (Csr, tied_items)) [4] = Inr owned'"
    and "sorted (map (\<lambda>i. 1 - sum_list (map2 (*) (user_query False (mean owned'))
                                             (snd (Csr, tied_items) ! i)) /
                       (sqrt (sum_list (map2 (*) (user_query False (mean owned'))
                                          (user_query False (mean owned')))) *
                        sqrt (sum_list (map2 (*) (snd (Csr, tied_items) ! i)
                                          (snd (Csr, tied_items) ! i))))) [0, 2])"
    by blast
  with owned vec
  have 2: "sorted (map (\<lambda>i. 1 - sum_list (map2 (*) [0, 1] (snd (Csr, tied_items) ! i)) /
                       (sqrt (sum_list (map2 (*) [0, 1] [0, 1])) *
                        sqrt (sum_list (map2 (*) (snd (Csr, tied_items) ! i)
                                          (snd (Csr, tied_items) ! i))))) [0, 2])"
    by simp
  from fit nns tied_distances 1 frame tied_user owned vec 2 show ?thesis
    by (intro conjI)
qed

text \<open>
  C5 as stated fails in its tie rule. The index is the library's, and it does not
  order equidistant items by their index: for the user who owns the fifth of the five
  items it ranks the four items at distance one as \<open>0, 2, 1, 3\<close>, and the user is
  recommended \<open>[0, 2]\<close>, where ascending indices give \<open>[0, 1]\<close>.
\<close>

theorem neighbours_tie_counterexample:
  "NearestNeighbors cosine_distance tied_ties 2 (Csr, tied_items) = Inr tied_nbrs \<and>
   tied_nbrs [0, 1] 5 = Inr [4, 0, 2, 1, 3] \<and>
   cosine_distance [0, 1] (tied_items ! 2) = cosine_distance [0, 1] (tied_items ! 1) \<and>
   \<not> sorted (map (\<lambda>i. (cosine_distance [0, 1] (tied_items ! i), i)) [4, 0, 2, 1, 3]) \<and>
   sort_key (\<lambda>i. (cosine_distance [0, 1] (tied_items ! i), i)) [0..<length tied_items]
     = [4, 0, 1, 2, 3] \<and>
   generate_recommendations tied_recommender 2 None =
     Some (Inr (tied_recommender
       \<lparr>train := \<lparr>columns = [''item_id'', ''recommendations''], rows = [(1, [[4], [0, 2]])]\<rparr>,
        recommendations :=
          \<lparr>columns = [''item_id'', ''recommendations''], rows = [(1, [[4], [0, 2]])]\<rparr>\<rparr>))"
proof (intro conjI)
  show "NearestNeighbors cosine_distance tied_ties 2 (Csr, tied_items) = Inr tied_nbrs"
    by (rule tied_fit) simp
  show "tied_nbrs [0, 1] 5 = Inr [4, 0, 2, 1, 3]"
    unfolding tied_query by (simp add: kneighbors_def)
  show "cosine_distance [0, 1] (tied_items ! 2) = cosine_distance [0, 1] (tied_items ! 1)"
    by (simp add: tied_items_def cosine_distance_def dot_def norm2_def)
  show "\<not> sorted (map (\<lambda>i. (cosine_distance [0, 1] (tied_items ! i), i)) [4, 0, 2, 1, 3])"
    by (simp add: tied_items_def cosine_distance_def dot_def norm2_def)
  show "sort_key (\<lambda>i. (cosine_distance [0, 1] (tied_items ! i), i)) [0..<length tied_items]
     = [4, 0, 1, 2, 3]"
    by (simp add: tied_items_def cosine_distance_def dot_def norm2_def upt_rec)
  show "generate_recommendations tied_recommender 2 None =
     Some (Inr (tied_recommender
       \<lparr>train := \<lparr>columns = [''item_id'', ''recommendations''], rows = [(1, [[4], [0, 2]])]\<rparr>,
        recommendations :=
          \<lparr>columns = [''item_id'', ''recommendations''], rows = [(1, [[4], [0, 2]])]\<rparr>\<rparr>))"
    by (rule tied_generation)
qed

section \<open>The metrics\<close>

lemma dcg_sum:
  "dcg recs gt = (\<Sum>i<length recs. (if recs ! i \<in> set gt then 1 else 0) / log 2 (real i + 2))"
proof -
  have "enumerate 0 recs = map (\<lambda>i. (i, recs ! i)) [0..<length recs]"
    by (simp add: enumerate_eq_zip zip_eq_conv comp_def map_nth)
  then have "dcg recs gt =
      sum_list (map (\<lambda>i. (if recs ! i \<in> set gt then 1 else 0) / log 2 (real i + 2)) [0..<length recs])"
    by (simp add: dcg_def comp_def)
  also have "\<dots> = (\<Sum>i<length recs. (if recs ! i \<in> set gt then 1 else 0) / log 2 (real i + 2))"
    by (simp add: sum_list_sum_nth atLeast0LessThan)
  finally show ?thesis .
qed

lemma ideal_dcg_sum:
  "ideal_dcg recs gt = (\<Sum>i<min (length recs) (length gt). 1 / log 2 (real i + 2))"
  unfolding ideal_dcg_def by (simp add: sum_list_sum_nth atLeast0LessThan)

lemma ideal_dcg_pos:
  assumes "recs \<noteq> []" "gt \<noteq> []"
  shows "0 < ideal_dcg recs gt"
proof -
  have "0 < min (length recs) (length gt)" using assms by simp
  moreover have "0 < 1 / log 2 (real i + 2)" for i :: nat by simp
  ultimately show ?thesis
    unfolding ideal_dcg_sum by (intro sum_pos) (auto simp: lessThan_empty_iff)
qed

lemma map_err_Inr:
  "(\<And>x. x \<in> set xs \<Longrightarrow> f x = Inr (g x)) \<Longrightarrow> map_err f xs = Inr (map g xs)"
  by (induction xs) simp_all

lemma metrics_report:
  assumes recs: "column joined ''recommendations'' = Inr recs"
    and gts: "column joined ''items'' = Inr gts"
    and rows: "rows joined \<noteq> []"
    and k: "0 < k"
    and ne: "[] \<notin> set recs" "[] \<notin> set gts"
  shows "metrics k joined =
     Inr \<lparr>cutoff = k,
          HR_at = average (map2 hit (map (\<lambda>rec. take (nat k) rec) recs) gts),
          nDCG_at = Some (average (map2 (\<lambda>rec gt. dcg rec gt / ideal_dcg rec gt)
                                    (map (\<lambda>rec. take (nat k) rec) recs) gts)),
          recall_at = average (map2 (\<lambda>rec gt. real (card (set rec \<inter> set gt)) / real (card (set gt)))
                                 (map (\<lambda>rec. take (nat k) rec) recs) gts),
          ideal_recall_at = average (map2 (\<lambda>rec gt. real (min (card (set gt)) (card (set rec)))
                                                      / real (card (set gt)))
                                       (map (\<lambda>rec. take (nat k) rec) recs) gts),
          nRecall_at = average (map2 (\<lambda>rec gt. (real (card (set rec \<inter> set gt)) / real (card (set gt)))
                                         / (real (min (card (set gt)) (card (set rec)))
                                              / real (card (set gt))))
                                  (map (\<lambda>rec. take (nat k) rec) recs) gts)\<rparr>"
proof -
  let ?recs = "map (\<lambda>rec. take (nat k) rec) recs"
  let ?rows = "zip ?recs gts"
  let ?recall = "\<lambda>(rec :: item list, gt :: item list). real (card (set rec \<inter> set gt)) / real (card (set gt))"
  let ?ideal = "\<lambda>(rec :: item list, gt :: item list). real (min (card (set gt)) (card (set rec))) / real (card (set gt))"
  have sl: "map (\<lambda>rec. slice_to rec k) recs = ?recs"
    using k by (simp add: slice_to_def)
  have row: "rec \<noteq> [] \<and> gt \<noteq> []" if "(rec, gt) \<in> set ?rows" for rec gt
  proof -
    from that have "rec \<in> set ?recs" "gt \<in> set gts" by (auto dest: set_zip_leftD set_zip_rightD)
    with ne k show ?thesis by auto
  qed
  have recall: "map_err (\<lambda>(rec, gt). recall rec gt) ?rows = Inr (map ?recall ?rows)"
    by (rule map_err_Inr) (use row in \<open>auto simp: recall_def\<close>)
  have ideal: "map_err (\<lambda>(rec, gt). ideal_recall rec gt) ?rows = Inr (map ?ideal ?rows)"
    by (rule map_err_Inr) (use row in \<open>auto simp: ideal_recall_def card_gt_0_iff\<close>)
  have zz: "zip (map ?recall ?rows) (map ?ideal ?rows) = map (\<lambda>x. (?recall x, ?ideal x)) ?rows"
    by (simp add: zip_map_map zip_same_conv_map)
  have nrec: "map_err (\<lambda>(r, ideal). nRecall r ideal) (map (\<lambda>x. (?recall x, ?ideal x)) ?rows)
      = Inr (map (\<lambda>(r, ideal). r / ideal) (map (\<lambda>x. (?recall x, ?ideal x)) ?rows))"
  proof (rule map_err_Inr)
    fix x assume "x \<in> set (map (\<lambda>x. (?recall x, ?ideal x)) ?rows)"
    then obtain rec gt where x: "x = (?recall (rec, gt), ?ideal (rec, gt))" and "(rec, gt) \<in> set ?rows"
      by auto
    with row have "rec \<noteq> []" "gt \<noteq> []" by auto
    then have "0 < card (set rec)" "0 < card (set gt)" by (simp_all add: card_gt_0_iff)
    then have "0 < real (min (card (set gt)) (card (set rec))) / real (card (set gt))"
      by (intro divide_pos_pos) simp_all
    then have nz: "real (min (card (set gt)) (card (set rec))) / real (card (set gt)) \<noteq> 0"
      by (rule less_imp_neq[THEN not_sym])
    have "nRecall r (real (min (card (set gt)) (card (set rec))) / real (card (set gt)))
        = Inr (r / (real (min (card (set gt)) (card (set rec))) / real (card (set gt))))" for r
      unfolding nRecall_def using nz by (rule if_not_P)
    then show "(case x of (r, ideal) \<Rightarrow> nRecall r ideal) = Inr (case x of (r, ideal) \<Rightarrow> r / ideal)"
      unfolding x prod.case .
  qed
  have nd: "map2 ndcg ?recs gts = map (\<lambda>(rec, gt). Some (dcg rec gt / ideal_dcg rec gt)) ?rows"
  proof (rule map_cong[OF refl])
    fix x assume xs: "x \<in> set ?rows"
    obtain rec gt where x: "x = (rec, gt)" by (cases x)
    with xs row have "rec \<noteq> []" "gt \<noteq> []" by auto
    from ideal_dcg_pos[OF this] have "ideal_dcg rec gt \<noteq> 0" by simp
    then show "(case x of (rec, gt) \<Rightarrow> ndcg rec gt)
        = (case x of (rec, gt) \<Rightarrow> Some (dcg rec gt / ideal_dcg rec gt))"
      unfolding x by (simp add: ndcg_def)
  qed
  have avg: "average_opt (map2 ndcg ?recs gts)
      = Some (average (map2 (\<lambda>rec gt. dcg rec gt / ideal_dcg rec gt) ?recs gts))"
    unfolding nd by (auto simp: average_opt_def comp_def case_prod_unfold)
  have nr: "map (\<lambda>(r, ideal). r / ideal) (map (\<lambda>x. (?recall x, ?ideal x)) ?rows)
      = map2 (\<lambda>rec gt. (real (card (set rec \<inter> set gt)) / real (card (set gt)))
                         / (real (min (card (set gt)) (card (set rec))) / real (card (set gt))))
          ?recs gts"
    unfolding map_map comp_def prod.case by (rule map_cong[OF refl]) (simp only: case_prod_unfold)
  from rows have rows': "(rows joined = []) = False" by simp
  show ?thesis
    unfolding metrics_def recs gts bind_err_def Let_def sum.case sl rows' if_False
      recall ideal zz nrec avg nr ..
qed

lemma scenario2_evaluate:
  "evaluate scenario2 None None 2 False =
     (scenario2\<lparr>test := \<lparr>columns = [''items''], rows = [(1, [[1, 3]])]\<rparr>\<rparr>, [],
      Inr \<lparr>cutoff = 2, HR_at = 1,
           nDCG_at = Some ((1 / log 2 2) / (1 / log 2 2 + 1 / log 2 3)),
           recall_at = 1 / 2, ideal_recall_at = 1, nRecall_at = 1 / 2\<rparr>)"
proof -
  let ?joined = "\<lparr>columns = [''item_id'', ''recommendations'', ''items''],
                  rows = [(1 :: user, [[0], [1, 2], [1, 3 :: item]])]\<rparr>"
  let ?gt = "\<lparr>columns = [''items''], rows = [(1 :: user, [[1, 3 :: item]])]\<rparr>"
  have r: "rename ''item_id'' ''items'' (test scenario2) = ?gt"
    by (simp add: rename_def scenario2_def)
  have j: "merge (recommendations scenario2) ?gt = ?joined"
    by (simp add: merge_def scenario2_def)
  have c1: "column ?joined ''recommendations'' = Inr [[1, 2]]"
    by (simp add: column_def getitem_def)
  have c2: "column ?joined ''items'' = Inr [[1, 3]]"
    by (simp add: column_def getitem_def)
  have "{1, 2 :: nat} \<inter> {1, 3} = {1}" by auto
  then have m: "metrics 2 ?joined =
      Inr \<lparr>cutoff = 2, HR_at = 1,
           nDCG_at = Some ((1 / log 2 2) / (1 / log 2 2 + 1 / log 2 3)),
           recall_at = 1 / 2, ideal_recall_at = 1, nRecall_at = 1 / 2\<rparr>"
    by (subst metrics_report[OF c1 c2])
       (simp_all add: average_def hit_def dcg_def ideal_dcg_def enumerate_eq_zip upt_rec)
  show ?thesis
    unfolding evaluate_def Let_def if_False r j m by (simp add: truthy_def)
qed

text \<open>
  C6 (amended). The discounted gain of a truncated list is the sum over the 0-indexed
  ranks \<open>i\<close> of the indicator that the item at rank \<open>i\<close> is in the ground truth,
  divided by \<open>log2 (i + 2)\<close>; the ideal gain is the sum of \<open>1 / log2 (i + 2)\<close> over
  the ranks below the smaller of the two lengths. For a joined table in which every
  row has a non-empty ground truth and a non-empty recommendation list, and a positive
  \<open>k\<close>, \<^verbatim>\<open>evaluate\<close> truncates every list to its first \<open>k\<close> entries and reports
  the means of the five metrics over the joined rows, nDCG being the quotient of the
  two gains. For the recommendations \<open>[B, C]\<close>, the ground truth \<open>{B, D}\<close> and
  \<open>k = 2\<close> it returns HR 1, recall 0.5, ideal recall 1, normalised recall 0.5 and
  nDCG \<open>(1 / log2 2) / (1 / log2 2 + 1 / log2 3)\<close>: the hit is at rank 0.
\<close>

theorem evaluate_report:
  "dcg rec gt = (\<Sum>i<length rec. (if rec ! i \<in> set gt then 1 else 0) / log 2 (real i + 2)) \<and>
   ideal_dcg rec gt = (\<Sum>i<min (length rec) (length gt). 1 / log 2 (real i + 2)) \<and>
   (column joined ''recommendations'' = Inr recs \<and> column joined ''items'' = Inr gts \<and>
    rows joined \<noteq> [] \<and> 0 < k \<and> [] \<notin> set recs \<and> [] \<notin> set gts \<longrightarrow>
    metrics k joined =
      Inr \<lparr>cutoff = k,
           HR_at = average (map2 hit (map (\<lambda>rec. take (nat k) rec) recs) gts),
           nDCG_at = Some (average (map2 (\<lambda>rec gt. dcg rec gt / ideal_dcg rec gt)
                                     (map (\<lambda>rec. take (nat k) rec) recs) gts)),
           recall_at = average (map2 (\<lambda>rec gt. real (card (set rec \<inter> set gt)) / real (card (set gt)))
                                  (map (\<lambda>rec. take (nat k) rec) recs) gts),
           ideal_recall_at = average (map2 (\<lambda>rec gt. real (min (card (set gt)) (card (set rec)))
                                                       / real (card (set gt)))
                                        (map (\<lambda>rec. take (nat k) rec) recs) gts),
           nRecall_at = average (map2 (\<lambda>rec gt. (real (card (set rec \<inter> set gt)) / real (card (set gt)))
                                          / (real (min (card (set gt)) (card (set rec)))
                                               / real (card (set gt))))
                                   (map (\<lambda>rec. take (nat k) rec) recs) gts)\<rparr>) \<and>
   evaluate scenario2 None None 2 False =
     (scenario2\<lparr>test := \<lparr>columns = [''items''], rows = [(1, [[1, 3]])]\<rparr>\<rparr>, [],
      Inr \<lparr>cutoff = 2, HR_at = 1,
           nDCG_at = Some ((1 / log 2 2) / (1 / log 2 2 + 1 / log 2 3)),
           recall_at = 1 / 2, ideal_recall_at = 1, nRecall_at = 1 / 2\<rparr>)"
  using dcg_sum ideal_dcg_sum metrics_report scenario2_evaluate by (intro conjI impI) blast+

theorem evaluate_report_witness:
  "column \<lparr>columns = [''item_id'', ''recommendations'', ''items''],
           rows = [(1, [[0], [1, 2], [1, 3]])]\<rparr> ''recommendations'' = Inr [[1, 2]] \<and>
   column \<lparr>columns = [''item_id'', ''recommendations'', ''items''],
           rows = [(1, [[0], [1, 2], [1, 3]])]\<rparr> ''items'' = Inr [[1, 3]] \<and>
   (0 :: int) < 2 \<and> [] \<notin> set [[1, 2 :: item]] \<and> [] \<notin> set [[1, 3 :: item]] \<and>
   metrics 2 \<lparr>columns = [''item_id'', ''recommendations'', ''items''],
              rows = [(1, [[0], [1, 2], [1, 3]])]\<rparr> =
     Inr \<lparr>cutoff = 2, HR_at = 1,
          nDCG_at = Some (1 / (1 + 1 / log 2 3)),
          recall_at = 1 / 2, ideal_recall_at = 1, nRecall_at = 1 / 2\<rparr>"
proof -
  let ?joined = "\<lparr>columns = [''item_id'', ''recommendations'', ''items''],
                  rows = [(1 :: user, [[0], [1, 2], [1, 3 :: item]])]\<rparr>"
  have c1: "column ?joined ''recommendations'' = Inr [[1, 2]]"
    by (simp add: column_def getitem_def)
  have c2: "column ?joined ''items'' = Inr [[1, 3]]"
    by (simp add: column_def getitem_def)
  have i: "{1, 2 :: nat} \<inter> {1, 3} = {1}" by auto
  from evaluate_report [of "[]" "[]" ?joined "[[1, 2]]" "[[1, 3]]" 2] c1 c2
  have "metrics 2 ?joined =
      Inr \<lparr>cutoff = 2, HR_at = 1,
           nDCG_at = Some (1 / (1 + 1 / log 2 3)),
           recall_at = 1 / 2, ideal_recall_at = 1, nRecall_at = 1 / 2\<rparr>"
    by (simp add: i average_def hit_def dcg_def ideal_dcg_def enumerate_eq_zip upt_rec)
  with c1 c2 show ?thesis by simp
qed

text \<open>
  C6 as stated fails in its example: the value it gives for nDCG@2 has the numerator
  \<open>1 / log2 3\<close> of a hit at rank 1, but B is the first recommendation.
\<close>

theorem evaluate_scenario_counterexample:
  "snd (snd (evaluate scenario2 None None 2 False)) \<noteq>
     Inr \<lparr>cutoff = 2, HR_at = 1,
          nDCG_at = Some ((1 / log 2 3) / (1 / log 2 2 + 1 / log 2 3)),
          recall_at = 1 / 2, ideal_recall_at = 1, nRecall_at = 1 / 2\<rparr>"
proof -
  have "log 2 2 < log 2 (3 :: real)" by (subst log_less_cancel_iff) simp_all
  then have l: "1 < log 2 (3 :: real)" by simp
  from l have b: "log 2 (3 :: real) \<noteq> 1" by (rule less_imp_neq[THEN not_sym])
  from l have "0 < log 2 (3 :: real)" by linarith
  then have "0 < 1 / log 2 (3 :: real)" by (rule divide_pos_pos[OF zero_less_one])
  then have "0 < 1 + 1 / log 2 (3 :: real)" by linarith
  then have a: "1 + 1 / log 2 (3 :: real) \<noteq> 0" by (rule less_imp_neq[THEN not_sym])
  from a b show ?thesis by (simp add: scenario2_evaluate)
qed

section \<open>What evaluate changes\<close>

text \<open>
  C9 (amended). \<^verbatim>\<open>evaluate\<close> renames the column \<^verbatim>\<open>item_id\<close> of the stored
  ground-truth table it uses (\<^verbatim>\<open>test\<close>, or \<^verbatim>\<open>val\<close> with \<^verbatim>\<open>val=True\<close>)
  to \<^verbatim>\<open>items\<close> in place. After any call the rows of both stored tables, the
  other table, the training table, the items and the recommendations table are as
  before the call.
\<close>

theorem evaluate_frame:
  assumes "evaluate self filename qual_eval_folder k use_val = (self', written, report)"
  shows "recommendations self' = recommendations self \<and> train self' = train self \<and>
         items self' = items self \<and>
         rows (test self') = rows (test self) \<and> rows (val self') = rows (val self) \<and>
         (if use_val
          then test self' = test self \<and>
               columns (val self') =
                 map (\<lambda>c. if c = ''item_id'' then ''items'' else c) (columns (val self))
          else val self' = val self \<and>
               columns (test self') =
                 map (\<lambda>c. if c = ''item_id'' then ''items'' else c) (columns (test self)))"
  using assms by (auto simp: evaluate_def Let_def rename_def)

theorem evaluate_frame_witness:
  "evaluate scenario2 None None 2 False =
     (scenario2\<lparr>test := \<lparr>columns = [''items''], rows = [(1, [[1, 3]])]\<rparr>\<rparr>, [],
      Inr \<lparr>cutoff = 2, HR_at = 1,
           nDCG_at = Some ((1 / log 2 2) / (1 / log 2 2 + 1 / log 2 3)),
           recall_at = 1 / 2, ideal_recall_at = 1, nRecall_at = 1 / 2\<rparr>) \<and>
   recommendations (scenario2\<lparr>test := \<lparr>columns = [''items''], rows = [(1, [[1, 3]])]\<rparr>\<rparr>)
     = recommendations scenario2 \<and>
   rows (test (scenario2\<lparr>test := \<lparr>columns = [''items''], rows = [(1, [[1, 3]])]\<rparr>\<rparr>))
     = rows (test scenario2) \<and>
   val (scenario2\<lparr>test := \<lparr>columns = [''items''], rows = [(1, [[1, 3]])]\<rparr>\<rparr>) = val scenario2"
  using evaluate_frame [OF scenario2_evaluate] scenario2_evaluate by simp

text \<open>
  C9 as stated fails: after the evaluation of scenario 2 the stored test table has
  the column \<^verbatim>\<open>items\<close> where it had \<^verbatim>\<open>item_id\<close>.
\<close>

theorem evaluate_frame_counterexample:
  "columns (test scenario2) = [''item_id''] \<and>
   columns (test (fst (evaluate scenario2 None None 2 False))) = [''items'']"
  by (simp add: scenario2_evaluate) (simp add: scenario2_def)

section \<open>The empty inventory\<close>

lemma for_rows_no_result:
  assumes "x \<in> set xs" and "\<And>r. body x \<noteq> Some (Inr r)"
  shows "for_rows body xs \<noteq> Some (Inr rs)"
proof
  assume "for_rows body xs = Some (Inr rs)"
  from for_rows_Inr[OF this] assms(1) obtain r where "body x = Some (Inr r)"
    by (auto simp: list_all2_conv_all_nth in_set_conv_nth)
  with assms(2)[of r] show False by blast
qed

lemma for_rows_raises:
  assumes "for_rows body before = Some (Inr rs)" and "body x = Some (Inl e)"
  shows "for_rows body (before @ x # rest) = Some (Inl e)"
  using assms
proof (induction before arbitrary: rs)
  case Nil
  then show ?case by (simp add: bind_res_def)
next
  case (Cons a before)
  then show ?case by (auto simp: bind_res_def split: option.splits sum.splits)
qed

lemma owned_items_empty: "owned_items X [] = Inl AssertionError"
  by (simp add: owned_items_def iloc_def bind_err_def df_empty_def)

lemma owned_items_nonempty:
  assumes "item_id \<noteq> []" and "[] \<notin> set X"
  shows "owned_items X item_id \<noteq> Inl AssertionError"
proof (cases "\<forall>i \<in> set item_id. i < length X")
  case True
  from assms(1) obtain i rest where i: "item_id = i # rest" by (cases item_id) auto
  with True have "X ! i \<in> set X" by simp
  with assms(2) have "X ! i \<noteq> []" by auto
  with True i show ?thesis
    by (simp add: owned_items_def iloc_def bind_err_def df_empty_def)
next
  case False
  then show ?thesis by (simp add: owned_items_def iloc_def bind_err_def)
qed

lemma recommend_row_empty:
  assumes "getitem cols row ''item_id'' = Inr []"
  shows "recommend_row normalized nbrs frame amount cols (index, row) = Some (Inl AssertionError)"
  using assms by (simp add: recommend_row_def recommend_user_def owned_items_empty)

lemma recommend_user_improved_empty:
  assumes "getitem cols row ''item_id'' = Inr []"
  shows "recommend_user_improved self nbrs frame amount cols (index, row) = Some (Inl AssertionError)"
  using assms by (simp add: recommend_user_improved_def owned_items_empty)

text \<open>
  C7. A user with an empty owned-item list makes the body of the generation loop fail
  with the assertion of line 245 (351). The run then produces no recommendation table,
  in either recommender, and when the encoding, the fit and all users before that one
  succeed, the run ends in that AssertionError. For a non-empty owned-item list (the
  catalogue having at least one feature column) the assertion does not fail.
\<close>

theorem empty_inventory_is_fatal:
  "owned_items X [] = Inl AssertionError \<and>
   (item_id \<noteq> [] \<and> [] \<notin> set X \<longrightarrow> owned_items X item_id \<noteq> Inl AssertionError) \<and>
   ((index, row) \<in> set (rows (select_users read_max (train self))) \<and>
    getitem (columns (select_users read_max (train self))) row ''item_id'' = Inr [] \<longrightarrow>
      (\<forall>self'. generate_recommendations self amount read_max \<noteq> Some (Inr self')) \<and>
      (\<forall>encoded nbrs before rest recs.
         encode self = Inr encoded \<and> method_nn self amount encoded = Inr nbrs \<and>
         rows (select_users read_max (train self)) = before @ (index, row) # rest \<and>
         for_rows (recommend_row (normalize_rows self) nbrs (content_frame self encoded) amount
                     (columns (select_users read_max (train self)))) before = Some (Inr recs) \<longrightarrow>
         generate_recommendations self amount read_max = Some (Inl AssertionError))) \<and>
   ((index, row) \<in> set (rows (select_users read_max (train improved_self))) \<and>
    getitem (columns (select_users read_max (train improved_self))) row ''item_id'' = Inr [] \<longrightarrow>
      (\<forall>self'. snd (generate_recommendations_improved improved_self amount read_max)
                 \<noteq> Some (Inr self')) \<and>
      (\<forall>encoded nbrs before rest recs.
         encode_improved improved_self = Inr encoded \<and>
         method_nn improved_self amount encoded = Inr nbrs \<and>
         rows (select_users read_max (train improved_self)) = before @ (index, row) # rest \<and>
         for_rows (recommend_user_improved improved_self nbrs (item_frame improved_self encoded) amount
                     (columns (select_users read_max (train improved_self)))) before
           = Some (Inr recs) \<longrightarrow>
         snd (generate_recommendations_improved improved_self amount read_max)
           = Some (Inl AssertionError)))"
proof (intro conjI impI allI; (elim conjE)?)
  show "owned_items X [] = Inl AssertionError" by (rule owned_items_empty)
next
  assume "item_id \<noteq> []" "[] \<notin> set X"
  then show "owned_items X item_id \<noteq> Inl AssertionError" by (rule owned_items_nonempty)
next
  fix self'
  let ?df = "select_users read_max (train self)"
  assume row: "(index, row) \<in> set (rows ?df)" "getitem (columns ?df) row ''item_id'' = Inr []"
  show "generate_recommendations self amount read_max \<noteq> Some (Inr self')"
  proof
    assume "generate_recommendations self amount read_max = Some (Inr self')"
    then obtain X nbrs recommendation_list where
      "for_rows (recommend_row (normalize_rows self) nbrs (content_frame self X) amount
          (columns ?df)) (rows ?df) = Some (Inr recommendation_list)"
      by (rule generate_recommendations_Inr)
    moreover have "for_rows (recommend_row (normalize_rows self) nbrs (content_frame self X) amount
          (columns ?df)) (rows ?df) \<noteq> Some (Inr recommendation_list)"
      by (rule for_rows_no_result[OF row(1)]) (simp add: recommend_row_empty[OF row(2)])
    ultimately show False by simp
  qed
next
  fix encoded nbrs before rest recs
  let ?df = "select_users read_max (train self)"
  assume row: "getitem (columns ?df) row ''item_id'' = Inr []"
    and enc: "encode self = Inr encoded" and fit: "method_nn self amount encoded = Inr nbrs"
    and rows: "rows ?df = before @ (index, row) # rest"
    and before: "for_rows (recommend_row (normalize_rows self) nbrs (content_frame self encoded)
                   amount (columns ?df)) before = Some (Inr recs)"
  from for_rows_raises[OF before recommend_row_empty[OF row]]
  show "generate_recommendations self amount read_max = Some (Inl AssertionError)"
    by (simp add: generate_recommendations_def Let_def enc fit rows bind_res_def)
next
  fix self'
  let ?df = "select_users read_max (train improved_self)"
  assume row: "(index, row) \<in> set (rows ?df)" "getitem (columns ?df) row ''item_id'' = Inr []"
  show "snd (generate_recommendations_improved improved_self amount read_max) \<noteq> Some (Inr self')"
  proof
    assume "snd (generate_recommendations_improved improved_self amount read_max) = Some (Inr self')"
    then obtain X nbrs recommendation_list where
      "for_rows (recommend_user_improved improved_self nbrs (item_frame improved_self X) amount
          (columns ?df)) (rows ?df) = Some (Inr recommendation_list)"
      by (rule generate_recommendations_improved_Inr)
    moreover have "for_rows (recommend_user_improved improved_self nbrs (item_frame improved_self X)
          amount (columns ?df)) (rows ?df) \<noteq> Some (Inr recommendation_list)"
      by (rule for_rows_no_result[OF row(1)]) (simp add: recommend_user_improved_empty[OF row(2)])
    ultimately show False by simp
  qed
next
  fix encoded nbrs before rest recs
  let ?df = "select_users read_max (train improved_self)"
  assume row: "getitem (columns ?df) row ''item_id'' = Inr []"
    and enc: "encode_improved improved_self = Inr encoded"
    and fit: "method_nn improved_self amount encoded = Inr nbrs"
    and rows: "rows ?df = before @ (index, row) # rest"
    and before: "for_rows (recommend_user_improved improved_self nbrs (item_frame improved_self encoded)
                   amount (columns ?df)) before = Some (Inr recs)"
  from for_rows_raises[OF before recommend_user_improved_empty[OF row]]
  show "snd (generate_recommendations_improved improved_self amount read_max) = Some (Inl AssertionError)"
    by (simp add: generate_recommendations_improved_def Let_def enc fit rows bind_res_def)
qed

theorem empty_inventory_is_fatal_witness:
  "[0 :: item] \<noteq> [] \<and> [] \<notin> set example_items \<and>
   owned_items example_items [0] \<noteq> Inl AssertionError \<and>
   (2, [[]]) \<in> set (rows (select_users None (train (example_recommender\<lparr>train := empty_user_train\<rparr>)))) \<and>
   getitem (columns (select_users None (train (example_recommender\<lparr>train := empty_user_train\<rparr>))))
     [[]] ''item_id'' = Inr [] \<and>
   generate_recommendations (example_recommender\<lparr>train := empty_user_train\<rparr>) 1 None
     = Some (Inl AssertionError) \<and>
   snd (generate_recommendations_improved (example_improved\<lparr>train := empty_user_train\<rparr>) 1 None)
     = Some (Inl AssertionError)"
proof -
  let ?R = "example_recommender\<lparr>train := empty_user_train\<rparr>"
  let ?I = "example_improved\<lparr>train := empty_user_train\<rparr>"
  have ne: "[0 :: item] \<noteq> []" "[] \<notin> set example_items"
    by (simp_all add: example_items_def)
  have df: "select_users None (train ?R) = empty_user_train"
    "select_users None (train ?I) = empty_user_train"
    by (simp_all add: select_users_def)
  have mem: "(2, [[]]) \<in> set (rows empty_user_train)"
    and rows: "rows empty_user_train = [(1, [[0]])] @ (2, [[]]) # []"
    and cols: "columns empty_user_train = [''item_id'']"
    by (simp_all add: empty_user_train_def)
  have get: "getitem [''item_id''] [[]] ''item_id'' = Inr []"
    by (simp add: getitem_def)
  have enc: "encode ?R = Inr (Csr, example_items)"
    "encode_improved ?I = Inr (Csr, example_items)"
    by (simp_all add: encode_def encode_improved_def example_recommender_def example_improved_def
        bind_err_def)
  have fit: "method_nn ?R 1 (Csr, example_items) = Inr example_nbrs"
    "method_nn ?I 1 (Csr, example_items) = Inr example_nbrs"
    using example_fit[of 1] by (simp_all add: example_recommender_def example_improved_def)
  have flags: "normalize_rows ?R = False"
    "content_frame ?R (Csr, example_items) = (SparseFrame, example_items)"
    "item_frame ?I (Csr, example_items) = (SparseFrame, example_items)"
    by (simp_all add: example_recommender_def example_improved_def content_frame_def
        item_frame_def build_frame_def)
  have get0: "getitem [''item_id''] [[0]] ''item_id'' = Inr [0]" by (simp add: getitem_def)
  have r1: "recommend_row False example_nbrs (SparseFrame, example_items) 1 [''item_id'']
      (1, [[0]]) = Some (Inr [1])"
    unfolding recommend_row_def by (simp add: get0 example_user del: One_nat_def)
  have b1: "for_rows (recommend_row False example_nbrs (SparseFrame, example_items) 1
      [''item_id'']) [(1, [[0]])] = Some (Inr [[1]])"
    by (simp add: r1 bind_res_def del: One_nat_def)
  have plain: "\<not> use_feedback ?I" "normalize_rows ?I = False"
    by (simp_all add: example_improved_def)
  have r2: "recommend_user_improved ?I example_nbrs (SparseFrame, example_items) 1 [''item_id'']
      (1, [[0]]) = Some (Inr [1])"
    unfolding recommend_user_improved_plain[OF plain(1) get0] plain(2) by (rule example_user)
  have b2: "for_rows (recommend_user_improved ?I example_nbrs (SparseFrame, example_items) 1
      [''item_id'']) [(1, [[0]])] = Some (Inr [[1]])"
    by (simp add: r2 bind_res_def del: One_nat_def)
  note t = empty_inventory_is_fatal
    [of example_items "[0]" 2 "[[]]" None ?R 1 ?I, unfolded df cols]
  from t ne have 1: "owned_items example_items [0] \<noteq> Inl AssertionError" by blast
  from t mem get
  have "\<forall>encoded nbrs before rest recs.
         encode ?R = Inr encoded \<and> method_nn ?R 1 encoded = Inr nbrs \<and>
         rows empty_user_train = before @ (2, [[]]) # rest \<and>
         for_rows (recommend_row (normalize_rows ?R) nbrs (content_frame ?R encoded) 1
                     [''item_id'']) before = Some (Inr recs) \<longrightarrow>
         generate_recommendations ?R 1 None = Some (Inl AssertionError)"
    by blast
  note h = this[rule_format, of "(Csr, example_items)" example_nbrs "[(1, [[0]])]" "[]" "[[1]]"]
  have 2: "generate_recommendations ?R 1 None = Some (Inl AssertionError)"
    by (rule h) (intro conjI enc(1) fit(1) rows, simp only: flags b1)
  from t mem get
  have "\<forall>encoded nbrs before rest recs.
         encode_improved ?I = Inr encoded \<and> method_nn ?I 1 encoded = Inr nbrs \<and>
         rows empty_user_train = before @ (2, [[]]) # rest \<and>
         for_rows (recommend_user_improved ?I nbrs (item_frame ?I encoded) 1 [''item_id'']) before
           = Some (Inr recs) \<longrightarrow>
         snd (generate_recommendations_improved ?I 1 None) = Some (Inl AssertionError)"
    by blast
  note hi = this[rule_format, of "(Csr, example_items)" example_nbrs "[(1, [[0]])]" "[]" "[[1]]"]
  have 3: "snd (generate_recommendations_improved ?I 1 None) = Some (Inl AssertionError)"
    by (rule hi) (intro conjI enc(2) fit(2) rows, simp only: flags b2)
  from ne 1 2 3 mem get show ?thesis unfolding df cols by blast
qed

section \<open>Feedback mode\<close>

lemma feedback_branch_fails:
  "\<exists>e. feedback_branch metadata_attr reviews_table cols index row item_id = Inl e"
  by (cases "getitem cols row ''playtime_forever''"; cases metadata_attr)
     (simp_all add: feedback_branch_def bind_err_def Let_def)

lemma recommend_user_improved_feedback:
  assumes "use_feedback self"
  shows "\<exists>e. recommend_user_improved self nbrs frame amount cols (index, row) = Some (Inl e)"
proof (cases "getitem cols row ''item_id''")
  case (Inl e)
  then show ?thesis by (simp add: recommend_user_improved_def)
next
  case item: (Inr item_id)
  show ?thesis
  proof (cases "owned_items (snd frame) item_id")
    case (Inl e)
    with item show ?thesis by (simp add: recommend_user_improved_def)
  next
    case (Inr inventory_items)
    obtain e where "feedback_branch (metadata self) (reviews self) cols index row item_id = Inl e"
      using feedback_branch_fails by blast
    with item Inr assms show ?thesis by (simp add: recommend_user_improved_def)
  qed
qed

lemma generate_recommendations_improved_first:
  assumes "encode_improved self = Inr X" and "method_nn self amount X = Inr nbrs"
    and "rows (select_users read_max (train self)) = first # rest"
    and "recommend_user_improved self nbrs (item_frame self X) amount
           (columns (select_users read_max (train self))) first = Some (Inl e)"
  shows "snd (generate_recommendations_improved self amount read_max) = Some (Inl e)"
  using assms by (simp add: generate_recommendations_improved_def Let_def bind_res_def)

lemma generate_recommendations_improved_feedback:
  assumes "use_feedback self" and "rows (select_users read_max (train self)) \<noteq> []"
  shows "\<exists>e. snd (generate_recommendations_improved self amount read_max) = Some (Inl e)"
proof (cases "encode_improved self")
  case (Inl e)
  then show ?thesis by (simp add: generate_recommendations_improved_def Let_def)
next
  case enc: (Inr X)
  show ?thesis
  proof (cases "method_nn self amount X")
    case (Inl e)
    with enc show ?thesis by (simp add: generate_recommendations_improved_def Let_def)
  next
    case fit: (Inr nbrs)
    from assms(2) obtain first rest where
      rows: "rows (select_users read_max (train self)) = first # rest"
      by (cases "rows (select_users read_max (train self))") auto
    obtain index row where first: "first = (index, row)" by (cases first)
    from recommend_user_improved_feedback[OF assms(1)] obtain e where
      "recommend_user_improved self nbrs (item_frame self X) amount
         (columns (select_users read_max (train self))) first = Some (Inl e)"
      unfolding first by blast
    from generate_recommendations_improved_first[OF enc fit rows this] show ?thesis by blast
  qed
qed

lemma feedback_example_generation:
  "generate_recommendations_improved feedback_example 1 None = ([], Some (Inl AttributeError))"
proof -
  let ?df = "\<lparr>columns = [''item_id'', ''playtime_forever''], rows = [(1 :: user, [[0], [120]])]\<rparr>"
  have enc: "encode_improved feedback_example = Inr (Csr, example_items)"
    by (simp add: encode_improved_def feedback_example_def example_improved_def bind_err_def)
  have fit: "method_nn feedback_example 1 (Csr, example_items) = Inr example_nbrs"
    using example_fit[of 1] by (simp add: feedback_example_def example_improved_def)
  have df: "select_users None (train feedback_example) = ?df"
    by (simp add: select_users_def feedback_example_def)
  have warn: "conflict_warnings feedback_example = []"
    by (simp add: conflict_warnings_def feedback_example_def example_improved_def)
  have fb: "use_feedback feedback_example" by (simp add: feedback_example_def)
  have body: "recommend_user_improved feedback_example example_nbrs
      (item_frame feedback_example (Csr, example_items))
      1 [''item_id'', ''playtime_forever''] (index, [[0], [120]]) = Some (Inl AttributeError)" for index
    by (simp add: recommend_user_improved_def getitem_def item_frame_def build_frame_def
        example_owned fb metadata_def feedback_branch_def bind_err_def)
  show ?thesis
    by (simp add: generate_recommendations_improved_def Let_def enc fit df warn body bind_res_def)
qed

text \<open>
  C10. With \<^verbatim>\<open>use_feedback=True\<close> and a non-empty user table the generation of
  an \<^verbatim>\<open>ImprovedRecommender\<close> always ends in an exception and never produces a
  table. Reading \<^verbatim>\<open>self.metadata\<close> raises AttributeError; whatever that read gave,
  the feedback branch ends in an exception without a user vector; so the body of the
  loop fails for every user, and the exception of the first user is the outcome of
  the run when the encoding and the fit succeed.
\<close>

theorem feedback_generation_fails:
  "metadata self = Inl AttributeError \<and>
   (\<exists>e. feedback_branch metadata_attr reviews_table cols index row item_id = Inl e) \<and>
   (use_feedback self \<longrightarrow>
      (\<exists>e. recommend_user_improved self nbrs frame amount cols (index, row) = Some (Inl e))) \<and>
   (use_feedback self \<and> rows (select_users read_max (train self)) \<noteq> [] \<longrightarrow>
      (\<exists>e. snd (generate_recommendations_improved self amount read_max) = Some (Inl e))) \<and>
   (use_feedback self \<and> encode_improved self = Inr X \<and> method_nn self amount X = Inr nbrs \<and>
    rows (select_users read_max (train self)) = first # rest \<longrightarrow>
      (\<exists>e. recommend_user_improved self nbrs (item_frame self X) amount
              (columns (select_users read_max (train self))) first = Some (Inl e) \<and>
           snd (generate_recommendations_improved self amount read_max) = Some (Inl e)))"
proof (intro conjI impI; (elim conjE)?)
  show "metadata self = Inl AttributeError" by (simp add: metadata_def)
  show "\<exists>e. feedback_branch metadata_attr reviews_table cols index row item_id = Inl e"
    by (rule feedback_branch_fails)
next
  assume "use_feedback self"
  then show "\<exists>e. recommend_user_improved self nbrs frame amount cols (index, row) = Some (Inl e)"
    by (rule recommend_user_improved_feedback)
next
  assume "use_feedback self" "rows (select_users read_max (train self)) \<noteq> []"
  then show "\<exists>e. snd (generate_recommendations_improved self amount read_max) = Some (Inl e)"
    by (rule generate_recommendations_improved_feedback)
next
  assume fb: "use_feedback self" and enc: "encode_improved self = Inr X"
    and fit: "method_nn self amount X = Inr nbrs"
    and rows: "rows (select_users read_max (train self)) = first # rest"
  obtain i r where first: "first = (i, r)" by (cases first)
  from recommend_user_improved_feedback[OF fb] obtain e where
    e: "recommend_user_improved self nbrs (item_frame self X) amount
         (columns (select_users read_max (train self))) first = Some (Inl e)"
    unfolding first by blast
  from generate_recommendations_improved_first[OF enc fit rows e] e
  show "\<exists>e. recommend_user_improved self nbrs (item_frame self X) amount
              (columns (select_users read_max (train self))) first = Some (Inl e) \<and>
           snd (generate_recommendations_improved self amount read_max) = Some (Inl e)"
    by blast
qed

theorem feedback_generation_fails_witness:
  "use_feedback feedback_example \<and>
   rows (select_users None (train feedback_example)) = (1, [[0], [120]]) # [] \<and>
   rows (select_users None (train feedback_example)) \<noteq> [] \<and>
   encode_improved feedback_example = Inr (Csr, example_items) \<and>
   method_nn feedback_example 1 (Csr, example_items) = Inr example_nbrs \<and>
   (\<exists>e. recommend_user_improved feedback_example example_nbrs
           (item_frame feedback_example (Csr, example_items)) 1
           (columns (select_users None (train feedback_example))) (1, [[0], [120]]) = Some (Inl e) \<and>
        snd (generate_recommendations_improved feedback_example 1 None) = Some (Inl e)) \<and>
   snd (generate_recommendations_improved feedback_example 1 None) = Some (Inl AttributeError)"
proof -
  have fb: "use_feedback feedback_example" by (simp add: feedback_example_def)
  have rows: "rows (select_users None (train feedback_example)) = (1, [[0], [120]]) # []"
    by (simp add: select_users_def feedback_example_def)
  then have ne: "rows (select_users None (train feedback_example)) \<noteq> []" by simp
  have enc: "encode_improved feedback_example = Inr (Csr, example_items)"
    by (simp add: encode_improved_def feedback_example_def example_improved_def bind_err_def)
  have fit: "method_nn feedback_example 1 (Csr, example_items) = Inr example_nbrs"
    using example_fit[of 1] by (simp add: feedback_example_def example_improved_def)
  note t = feedback_generation_fails
    [where self = feedback_example and read_max = None and amount = 1
       and X = "(Csr, example_items)" and nbrs = example_nbrs
       and first = "(1, [[0], [120]])" and rest = "[]"]
  from t fb enc fit rows
  have "\<exists>e. recommend_user_improved feedback_example example_nbrs
           (item_frame feedback_example (Csr, example_items)) 1
           (columns (select_users None (train feedback_example))) (1, [[0], [120]]) = Some (Inl e) \<and>
        snd (generate_recommendations_improved feedback_example 1 None) = Some (Inl e)"
    by blast
  with fb rows ne enc fit show ?thesis by (simp add: feedback_example_generation)
qed

text \<open>
  C2 fails on the code. In feedback mode the weights of the claim are what lines 357
  to 368 would give (here: the reviewed and liked item 0 gets 1, the item 1 without a
  review its sentiment), but the run never gets there: it ends in the AttributeError
  of \<^verbatim>\<open>self.metadata\<close>, and no weighted mean is ever computed.
\<close>

theorem feedback_weights_never_used:
  "generate_recommendations_improved feedback_example 1 None = ([], Some (Inl AttributeError)) \<and>
   feedback_weights sentiment (map_of (reviews feedback_example) 1) [0, 1] = [1, sentiment 1]"
  by (simp add: feedback_example_generation)
     (simp add: feedback_weights_def explicit_feedback_def feedback_example_def)

section \<open>Sparse representation together with a reduction\<close>

lemma conflict_example_sparse:
  "generate_recommendations_improved conflict_example 1 None =
     ([RuntimeWarning], Some (Inl TypeError))"
proof -
  have enc: "encode_improved conflict_example = Inr (Csr, example_items)"
    by (simp add: encode_improved_def conflict_example_def example_improved_def bind_err_def)
  have fit: "method_nn example_improved 1 (Csr, example_items) = Inr example_nbrs"
    using example_fit[of 1] by (simp add: example_improved_def)
  have nn: "method_nn conflict_example = method_nn example_improved"
    by (simp add: conflict_example_def)
  have df: "select_users None (train conflict_example) = example_train"
    by (simp add: select_users_def conflict_example_def example_improved_def)
  have frame: "item_frame conflict_example (Csr, example_items) = (ObjectFrame, example_items)"
    by (simp add: item_frame_def build_frame_def conflict_example_def example_improved_def)
  have warn: "conflict_warnings conflict_example = [RuntimeWarning]"
    by (simp add: conflict_warnings_def conflict_example_def example_improved_def)
  have plain: "\<not> use_feedback conflict_example"
    by (simp add: conflict_example_def example_improved_def)
  have get: "getitem [''item_id''] [[0]] ''item_id'' = Inr [0]" by (simp add: getitem_def)
  have user: "recommend_user_improved conflict_example example_nbrs (ObjectFrame, example_items) 1
      [''item_id''] (index, [[0]]) = Some (Inl TypeError)" for index
    unfolding recommend_user_improved_plain[OF plain get]
    by (simp add: recommend_user_def frame_mean_def example_owned)
  show ?thesis
    unfolding generate_recommendations_improved_def Let_def df enc nn
    by (simp add: fit frame warn example_train_def user bind_res_def del: One_nat_def)
qed

lemma conflict_example_dense:
  "generate_recommendations_improved (conflict_example\<lparr>sparse := False\<rparr>) 1 None =
     ([], Some (Inr (conflict_example
       \<lparr>sparse := False,
        train := \<lparr>columns = [''item_id'', ''recommendations''], rows = [(1, [[0], [1]])]\<rparr>,
        recommendations :=
          \<lparr>columns = [''item_id'', ''recommendations''], rows = [(1, [[0], [1]])]\<rparr>\<rparr>)))"
proof -
  let ?D = "conflict_example\<lparr>sparse := False\<rparr>"
  have enc: "encode_improved ?D = Inr (Ndarray, example_items)"
    by (simp add: encode_improved_def conflict_example_def example_improved_def bind_err_def)
  have fit: "method_nn example_improved 1 (Ndarray, example_items) = Inr example_nbrs"
    by (simp add: example_improved_def NearestNeighbors_def example_nbrs_def)
       (simp add: example_items_def)
  have nn: "method_nn ?D = method_nn example_improved"
    by (simp add: conflict_example_def)
  have df: "select_users None (train ?D) = example_train"
    by (simp add: select_users_def conflict_example_def example_improved_def)
  have frame: "item_frame ?D (Ndarray, example_items) = (DenseFrame, example_items)"
    by (simp add: item_frame_def build_frame_def)
  have warn: "conflict_warnings ?D = []"
    by (simp add: conflict_warnings_def)
  have plain: "\<not> use_feedback ?D" "normalize_rows ?D = False"
    by (simp_all add: conflict_example_def example_improved_def)
  have get: "getitem [''item_id''] [[0]] ''item_id'' = Inr [0]" by (simp add: getitem_def)
  have dense: "recommend_user False example_nbrs (DenseFrame, example_items) 1 [0] =
      recommend_user False example_nbrs (SparseFrame, example_items) 1 [0]"
    by (simp add: recommend_user_def frame_mean_def cong: sum.case_cong)
  have user: "recommend_user_improved ?D example_nbrs (DenseFrame, example_items) 1
      [''item_id''] (index, [[0]]) = Some (Inr [1])" for index
    unfolding recommend_user_improved_plain[OF plain(1) get] plain(2) dense by (rule example_user)
  have "generate_recommendations_improved ?D 1 None =
      ([], Some (Inr (store None example_train [[1]] ?D)))"
    unfolding generate_recommendations_improved_def Let_def df enc nn
    by (simp add: fit frame warn example_train_def user bind_res_def del: One_nat_def)
  then show ?thesis unfolding example_store by simp
qed

text \<open>
  C8 fails on the code. With \<^verbatim>\<open>sparse=True\<close> and a reduction that keeps a sparse
  matrix sparse, the run warns that a dense representation is used instead and then
  builds the item frame from the matrix as it is; the first user's \<^verbatim>\<open>mean()\<close>
  raises TypeError and no table is produced. The same configuration with
  \<^verbatim>\<open>sparse=False\<close> warns of nothing and recommends item B to the user.
\<close>

theorem sparse_reduction_conflict:
  "sparse conflict_example \<and> dim_red conflict_example = Some Inr \<and>
   \<not> use_feedback conflict_example \<and>
   generate_recommendations_improved conflict_example 1 None =
     ([RuntimeWarning], Some (Inl TypeError)) \<and>
   generate_recommendations_improved (conflict_example\<lparr>sparse := False\<rparr>) 1 None =
     ([], Some (Inr (conflict_example
       \<lparr>sparse := False,
        train := \<lparr>columns = [''item_id'', ''recommendations''], rows = [(1, [[0], [1]])]\<rparr>,
        recommendations :=
          \<lparr>columns = [''item_id'', ''recommendations''], rows = [(1, [[0], [1]])]\<rparr>\<rparr>)))"
  by (simp add: conflict_example_sparse conflict_example_dense)
     (simp add: conflict_example_def example_improved_def)

end
